theory Spec2Isabelle
  imports Main "HOL-Library.Multiset"
begin

section \<open>Python values, exceptions and effects\<close>

text \<open>
  Both scripts are straight-line drivers around library calls.  The embedding keeps the
  scripts' own control flow (loops, \<^verbatim>\<open>try\<close>/\<^verbatim>\<open>except\<close>, \<^verbatim>\<open>continue\<close>, dictionary and
  list subscription, string building) and takes the numerical libraries (PyKEEN, PyTorch)
  as parameters that either return a value or raise.
\<close>

datatype pyval = PInt int | PStr string

datatype exn_class =
  KeyError | IndexError | ValueError | RuntimeError | OSError | OtherException
  | KeyboardInterrupt | SystemExit

text \<open>An exception instance: its class and the text \<^verbatim>\<open>str(e)\<close> gives.\<close>

datatype exn = Exn exn_class string

text \<open>
  \<^verbatim>\<open>except Exception\<close> catches the subclasses of \<^verbatim>\<open>Exception\<close>;
  \<^verbatim>\<open>KeyboardInterrupt\<close> and \<^verbatim>\<open>SystemExit\<close> derive from \<^verbatim>\<open>BaseException\<close> only.
\<close>

fun is_Exception :: "exn \<Rightarrow> bool" where
  "is_Exception (Exn KeyboardInterrupt _) = False"
| "is_Exception (Exn SystemExit _) = False"
| "is_Exception (Exn _ _) = True"

fun exn_str :: "exn \<Rightarrow> string" where
  "exn_str (Exn _ msg) = msg"

text \<open>
  A statement runs on a state and ends normally with a value or with a raised exception;
  the state reached is kept in both cases (what was written before a raise stays written).
\<close>

type_synonym ('s, 'a) run = "'s \<Rightarrow> (exn + 'a) \<times> 's"

definition ret :: "'a \<Rightarrow> ('s, 'a) run" where
  "ret x = (\<lambda>s. (Inr x, s))"

definition raiseE :: "exn \<Rightarrow> ('s, 'a) run" where
  "raiseE e = (\<lambda>s. (Inl e, s))"

definition lift :: "exn + 'a \<Rightarrow> ('s, 'a) run" where
  "lift r = (\<lambda>s. (r, s))"

definition bindE :: "('s, 'a) run \<Rightarrow> ('a \<Rightarrow> ('s, 'b) run) \<Rightarrow> ('s, 'b) run" where
  "bindE m f = (\<lambda>s. case m s of (Inl e, s') \<Rightarrow> (Inl e, s') | (Inr x, s') \<Rightarrow> f x s')"

definition try_except_Exception ::
  "('s, unit) run \<Rightarrow> (exn \<Rightarrow> ('s, unit) run) \<Rightarrow> ('s, unit) run" where
  "try_except_Exception body handler = (\<lambda>s. case body s of
       (Inl e, s') \<Rightarrow> if is_Exception e then handler e s' else (Inl e, s')
     | (Inr u, s') \<Rightarrow> (Inr u, s'))"

text \<open>A \<^verbatim>\<open>for\<close> loop whose body has no \<^verbatim>\<open>break\<close>: a raise in the body leaves the loop.\<close>

fun for_each :: "('a \<Rightarrow> ('s, unit) run) \<Rightarrow> 'a list \<Rightarrow> ('s, unit) run" where
  "for_each body [] = ret ()"
| "for_each body (x # xs) = bindE (body x) (\<lambda>_. for_each body xs)"

subsection \<open>\<^verbatim>\<open>str\<close> and \<^verbatim>\<open>repr\<close>\<close>

definition digit_char :: "nat \<Rightarrow> char" where
  "digit_char d = ''0123456789'' ! d"

function str_nat :: "nat \<Rightarrow> string" where
  "str_nat n = (if n < 10 then [digit_char n] else str_nat (n div 10) @ [digit_char (n mod 10)])"
  by pat_completeness auto
termination
  by (relation "measure id") auto

declare str_nat.simps [simp del]

definition str_int :: "int \<Rightarrow> string" where
  "str_int i = (if i < 0 then CHR ''-'' # str_nat (nat (- i)) else str_nat (nat i))"

fun py_str :: "pyval \<Rightarrow> string" where
  "py_str (PInt i) = str_int i"
| "py_str (PStr s) = s"

text \<open>\<^verbatim>\<open>repr\<close> of a string without quotes or backslashes; the texts of this program have none.\<close>

fun py_repr :: "pyval \<Rightarrow> string" where
  "py_repr (PInt i) = str_int i"
| "py_repr (PStr s) = [CHR 0x27] @ s @ [CHR 0x27]"

text \<open>
  \<^verbatim>\<open>d[k]\<close> on a dictionary, an association list in insertion order.  Keys compare as
  Python values do: the integer \<^verbatim>\<open>8\<close> is not the string \<^verbatim>\<open>'8'\<close>.  A missing key raises
  \<^verbatim>\<open>KeyError(k)\<close>, whose text is \<^verbatim>\<open>repr(k)\<close>.
\<close>

definition dict_getitem :: "(pyval \<times> 'v) list \<Rightarrow> pyval \<Rightarrow> exn + 'v" where
  "dict_getitem d k = (case map_of d k of
       None \<Rightarrow> Inl (Exn KeyError (py_repr k))
     | Some v \<Rightarrow> Inr v)"

section \<open>The embedding sweep (\<^verbatim>\<open>2_learn_embs/learn_kge.py\<close>)\<close>

subsection \<open>Constants of the script (lines 16 to 33)\<close>

definition datasets :: "string list" where
  "datasets = [''ml1m'', ''dbbook'']"

definition emb_models :: "string list" where
  "emb_models = [''CompGCN'']"

definition settings :: "pyval list" where
  "settings = [PInt 8, PInt 7, PInt 6, PInt 5, PInt 4, PInt 3, PInt 2, PInt 1]"

definition emb_dims :: "int list" where
  "emb_dims = [64]"

definition n_layers :: "int list" where
  "n_layers = [1, 2, 3]"

definition emb_epochs :: int where
  "emb_epochs = 15"

definition setting_kgs :: "(pyval \<times> string) list" where
  "setting_kgs =
    [(PStr ''1'', ''1_cf''),
     (PStr ''2'', ''2_cf_dbpedia''),
     (PStr ''3'', ''3_cf_llm_i''),
     (PStr ''4'', ''4_cf_llm_u''),
     (PStr ''5'', ''5_cf_llm_iu''),
     (PStr ''6'', ''6_cf_dbpedia_llm_i''),
     (PStr ''8'', ''8_cf_dbpedia_llm_ui''),
     (PStr ''7'', ''7_cf_dbpedia_llm_u'')]"

subsection \<open>Files, tables and the library\<close>

datatype 'f cell = CStr string | CInt int | CFloat 'f

text \<open>
  What a path holds: a directory, an object saved by \<^verbatim>\<open>torch.save\<close>, a table written by
  \<^verbatim>\<open>DataFrame.to_csv(sep='\t', header=False, index=False)\<close> (its rows of cells, in row
  order and column order), or a file PyKEEN's \<^verbatim>\<open>save_to_directory\<close> writes.
\<close>

datatype ('r, 'f) content = Dir | Saved 'r | Frame "'f cell list list" | LibraryFile

record ('r, 'f) kstate =
  log_file :: string
  stdout :: "string list"
  fs :: "string \<Rightarrow> ('r, 'f) content option"

text \<open>A triples factory: the two vocabularies, dictionaries in insertion order.\<close>

record factory =
  entity_to_id :: "(string \<times> int) list"
  relation_to_id :: "(string \<times> int) list"

text \<open>
  The library calls of the \<^verbatim>\<open>try\<close> block: \<^verbatim>\<open>TriplesFactory.from_path\<close> (path, the
  vocabularies to reuse), \<^verbatim>\<open>pipeline\<close> (training and testing factories, model name,
  embedding dimension, layers, epochs, checkpoint name),
  \<^verbatim>\<open>result.model.entity_representations[0](indices=None)\<close> as a matrix, and whether
  \<^verbatim>\<open>result.save_to_directory\<close> raises.
\<close>

record ('r, 'f) kenv =
  from_path :: "string \<Rightarrow> ((string \<times> int) list \<times> (string \<times> int) list) option \<Rightarrow> exn + factory"
  pipeline :: "factory \<Rightarrow> factory \<Rightarrow> string \<Rightarrow> int \<Rightarrow> int \<Rightarrow> int \<Rightarrow> string \<Rightarrow> exn + 'r"
  entity_representations :: "'r \<Rightarrow> exn + 'f list list"
  save_to_directory_fails :: "'r \<Rightarrow> string \<Rightarrow> exn option"

definition print_line :: "string \<Rightarrow> (('r, 'f) kstate, unit) run" where
  "print_line s = (\<lambda>st. (Inr (), st\<lparr>stdout := stdout st @ [s]\<rparr>))"

definition log_write :: "string \<Rightarrow> (('r, 'f) kstate, unit) run" where
  "log_write s = (\<lambda>st. (Inr (), st\<lparr>log_file := log_file st @ s\<rparr>))"

definition dirname :: "string \<Rightarrow> string" where
  "dirname p = rev (tl (dropWhile (\<lambda>c. c \<noteq> CHR ''/'') (rev p)))"

definition path_exists :: "('r, 'f) kstate \<Rightarrow> string \<Rightarrow> bool" where
  "path_exists st p = (fs st p \<noteq> None)"

definition path_isfile :: "('r, 'f) kstate \<Rightarrow> string \<Rightarrow> bool" where
  "path_isfile st p = (case fs st p of None \<Rightarrow> False | Some Dir \<Rightarrow> False | Some _ \<Rightarrow> True)"

text \<open>\<^verbatim>\<open>os.mkdir\<close>: the parent must be a directory and the path must not exist.\<close>

definition mkdir :: "string \<Rightarrow> (('r, 'f) kstate, unit) run" where
  "mkdir p = (\<lambda>st.
     if fs st p \<noteq> None then (Inl (Exn OSError p), st)
     else if fs st (dirname p) \<noteq> Some Dir then (Inl (Exn OSError p), st)
     else (Inr (), st\<lparr>fs := (fs st)(p \<mapsto> Dir)\<rparr>))"

text \<open>Writing a file: its directory must exist and the path must not be a directory.\<close>

definition write_file :: "string \<Rightarrow> ('r, 'f) content \<Rightarrow> (('r, 'f) kstate, unit) run" where
  "write_file p c = (\<lambda>st.
     if fs st (dirname p) \<noteq> Some Dir \<or> fs st p = Some Dir then (Inl (Exn OSError p), st)
     else (Inr (), st\<lparr>fs := (fs st)(p \<mapsto> c)\<rparr>))"

text \<open>
  \<^verbatim>\<open>pd.DataFrame(data=list(d.items()))\<close>: one row per item of the dictionary, in the
  dictionary's order; an item is the pair (key, value), so column 0 holds the keys.
\<close>

definition items_frame :: "(string \<times> int) list \<Rightarrow> 'f cell list list" where
  "items_frame d = map (\<lambda>(k, v). [CStr k, CInt v]) d"

definition matrix_frame :: "'f list list \<Rightarrow> 'f cell list list" where
  "matrix_frame m = map (map CFloat) m"

text \<open>
  \<^verbatim>\<open>result.save_to_directory(folder, save_training=True, save_metadata=True)\<close> writes
  PyKEEN's own files into the folder, none of them under a name the script writes itself.
\<close>

definition save_to_directory :: "('r, 'f) kenv \<Rightarrow> 'r \<Rightarrow> string \<Rightarrow> (('r, 'f) kstate, unit) run" where
  "save_to_directory env result folder = (case save_to_directory_fails env result folder of
       Some e \<Rightarrow> raiseE e
     | None \<Rightarrow>
         bindE (write_file (folder @ ''/trained_model.pkl'') LibraryFile) (\<lambda>_.
         bindE (write_file (folder @ ''/results.json'') LibraryFile) (\<lambda>_.
         bindE (write_file (folder @ ''/metadata.json'') LibraryFile) (\<lambda>_.
         (\<lambda>st. (Inr (), st\<lparr>fs := (fs st)(folder @ ''/training_triples'' \<mapsto> Dir)\<rparr>))))))"

subsection \<open>The loop body (lines 43 to 131)\<close>

text \<open>The \<^verbatim>\<open>try\<close> block, lines 62 to 124.\<close>

definition learn ::
  "('r, 'f) kenv \<Rightarrow> string \<Rightarrow> string \<Rightarrow> string \<Rightarrow> string \<Rightarrow> string \<Rightarrow> string \<Rightarrow> int \<Rightarrow> int
     \<Rightarrow> (('r, 'f) kstate, unit) run" where
  "learn env printline folder train_path test_path checkpoint_name_file emb_model emb_dim n_layer =
     bindE (print_line (''Starting learning:'' @ folder)) (\<lambda>_.
     bindE (print_line (''Starting learning: '' @ printline)) (\<lambda>_.
     bindE (lift (from_path env train_path None)) (\<lambda>emb_training.
     bindE (lift (from_path env test_path
              (Some (entity_to_id emb_training, relation_to_id emb_training)))) (\<lambda>emb_testing.
     bindE (lift (pipeline env emb_training emb_testing emb_model emb_dim n_layer emb_epochs
              checkpoint_name_file)) (\<lambda>result.
     bindE (\<lambda>st. if \<not> path_exists st folder then mkdir folder st else (Inr (), st)) (\<lambda>_.
     bindE (write_file (folder @ ''/pipeline_result.dat'') (Saved result)) (\<lambda>_.
     bindE (write_file (folder @ ''/entities_to_id.tsv'')
              (Frame (items_frame (entity_to_id emb_training)))) (\<lambda>_.
     bindE (write_file (folder @ ''/relations_to_id.tsv'')
              (Frame (items_frame (relation_to_id emb_training)))) (\<lambda>_.
     bindE (save_to_directory env result folder) (\<lambda>_.
     bindE (lift (entity_representations env result)) (\<lambda>entity_embedding_tensor.
     bindE (write_file (folder @ ''/embeddings.tsv'')
              (Frame (matrix_frame entity_embedding_tensor))) (\<lambda>_.
     bindE (print_line (''Completed '' @ printline)) (\<lambda>_.
     log_write (''Completed'' @ [CHR 0x0A]))))))))))))))"

text \<open>The \<^verbatim>\<open>except Exception as e\<close> handler, lines 126 to 131.\<close>

definition on_error :: "string \<Rightarrow> exn \<Rightarrow> (('r, 'f) kstate, unit) run" where
  "on_error printline e =
     bindE (print_line (''An error occoured in '' @ printline)) (\<lambda>_.
     bindE (log_write (''An error occoured in '' @ printline @ [CHR 0x0A])) (\<lambda>_.
     bindE (print_line (exn_str e)) (\<lambda>_.
     log_write (exn_str e @ [CHR 0x0A]))))"

definition config_name :: "string \<Rightarrow> pyval \<Rightarrow> string \<Rightarrow> int \<Rightarrow> int \<Rightarrow> string" where
  "config_name dataset setting emb_model emb_dim n_layer =
     dataset @ ''_setting_'' @ py_str setting @ ''_'' @ emb_model
       @ ''_k='' @ str_int emb_dim @ ''_l='' @ str_int n_layer"

text \<open>
  One iteration.  The two paths are built at lines 49 and 50, before the \<^verbatim>\<open>try\<close> of
  line 60; each subscripts the dictionary with the loop variable \<^verbatim>\<open>setting\<close>.  The
  dictionary is the argument \<open>kgs\<close>; the script's is \<^verbatim>\<open>setting_kgs\<close>, which \<open>sweep\<close>
  passes.  The skip of line 55 is \<^verbatim>\<open>isfile(...) and False\<close>.
\<close>

definition sweep_body ::
  "(pyval \<times> string) list \<Rightarrow> ('r, 'f) kenv \<Rightarrow> string \<times> int \<times> string \<times> pyval \<times> int
     \<Rightarrow> (('r, 'f) kstate, unit) run" where
  "sweep_body kgs env = (\<lambda>(emb_model, emb_dim, dataset, setting, n_layer).
     let printline = config_name dataset setting emb_model emb_dim n_layer in
     bindE (print_line (''Starting '' @ printline)) (\<lambda>_.
     bindE (log_write (''Starting'' @ printline)) (\<lambda>_.
     let folder = ''results/'' @ config_name dataset setting emb_model emb_dim n_layer in
     bindE (lift (dict_getitem kgs setting)) (\<lambda>kg_train.
     let train_path = dataset @ ''/setting_'' @ kg_train @ ''/pykeen_train.tsv'' in
     bindE (lift (dict_getitem kgs setting)) (\<lambda>kg_test.
     let test_path = dataset @ ''/setting_'' @ kg_test @ ''/pykeen_test.tsv'';
         checkpoint_name_file =
           dataset @ ''_checkpoints_setting_'' @ py_str setting @ ''_'' @ emb_model
             @ ''_k='' @ str_int emb_dim @ ''_l='' @ str_int n_layer in
     (\<lambda>st.
        if path_isfile st (folder @ ''/embeddings.tsv'') \<and> False
        then print_line (''Existing embedding in '' @ folder) st
        else try_except_Exception
               (learn env printline folder train_path test_path checkpoint_name_file
                  emb_model emb_dim n_layer)
               (on_error printline) st))))))"

text \<open>The five nested loops, lines 37 to 41, outermost first.\<close>

definition sweep_over ::
  "string list \<Rightarrow> int list \<Rightarrow> string list \<Rightarrow> pyval list \<Rightarrow> int list
     \<Rightarrow> (string \<times> int \<times> string \<times> pyval \<times> int) list" where
  "sweep_over ms ds dss ss ls =
     concat (map (\<lambda>m. concat (map (\<lambda>d. concat (map (\<lambda>dataset.
       concat (map (\<lambda>s. map (\<lambda>l. (m, d, dataset, s, l)) ls) ss)) dss)) ds)) ms)"

definition configurations :: "(string \<times> int \<times> string \<times> pyval \<times> int) list" where
  "configurations = sweep_over emb_models emb_dims datasets settings n_layers"

text \<open>The state after \<^verbatim>\<open>open('log.txt', 'w')\<close>, on a given file system.\<close>

definition initial :: "(string \<Rightarrow> ('r, 'f) content option) \<Rightarrow> ('r, 'f) kstate" where
  "initial files = \<lparr>log_file = [], stdout = [], fs = files\<rparr>"

definition sweep :: "('r, 'f) kenv \<Rightarrow> (('r, 'f) kstate, unit) run" where
  "sweep env = for_each (sweep_body setting_kgs env) configurations"

section \<open>The recommender driver (\<^verbatim>\<open>3_recsys/src/train_dbbook.py\<close>)\<close>

subsection \<open>Tables\<close>

text \<open>
  A row of a three-column table (\<^verbatim>\<open>user\<close>, \<^verbatim>\<open>item\<close>, \<^verbatim>\<open>score\<close>) is a triple; a table is
  the list of its rows, in row order.
\<close>

definition user :: "'u \<times> 'i \<times> 's \<Rightarrow> 'u" where
  "user r = fst r"

definition item :: "'u \<times> 'i \<times> 's \<Rightarrow> 'i" where
  "item r = fst (snd r)"

definition score :: "'u \<times> 'i \<times> 's \<Rightarrow> 's" where
  "score r = snd (snd r)"

text \<open>Sequencing of calls that return or raise, without state.\<close>

definition bindS :: "exn + 'a \<Rightarrow> ('a \<Rightarrow> exn + 'b) \<Rightarrow> exn + 'b" where
  "bindS r f = (case r of Inl e \<Rightarrow> Inl e | Inr x \<Rightarrow> f x)"

text \<open>Mapping a function that may raise over a list, left to right.\<close>

fun map_exn :: "('a \<Rightarrow> exn + 'b) \<Rightarrow> 'a list \<Rightarrow> exn + 'b list" where
  "map_exn f [] = Inr []"
| "map_exn f (x # xs) = bindS (f x) (\<lambda>y. bindS (map_exn f xs) (\<lambda>ys. Inr (y # ys)))"

text \<open>
  \<^verbatim>\<open>xs[i]\<close> on a list: a negative index counts from the end, an index out of range
  raises \<^verbatim>\<open>IndexError\<close>.
\<close>

definition list_getitem :: "'a list \<Rightarrow> int \<Rightarrow> exn + 'a" where
  "list_getitem xs i =
     (if 0 \<le> i \<and> i < int (length xs) then Inr (xs ! nat i)
      else if i < 0 \<and> - int (length xs) \<le> i then Inr (xs ! nat (int (length xs) + i))
      else Inl (Exn IndexError ''list index out of range''))"

subsection \<open>The canonical entity index (lines 193 to 201)\<close>

text \<open>
  A dictionary is an association list in insertion order in which every key occurs once.
  \<^verbatim>\<open>d[k] = v\<close> replaces the value of a key that is present, in place, and appends a new key.
\<close>

fun dict_setitem :: "('k \<times> 'v) list \<Rightarrow> 'k \<Rightarrow> 'v \<Rightarrow> ('k \<times> 'v) list" where
  "dict_setitem [] k v = [(k, v)]"
| "dict_setitem ((k', v') # d) k v =
     (if k' = k then (k', v) # d else (k', v') # dict_setitem d k v)"

definition dict_of :: "('k \<times> 'v) list \<Rightarrow> ('k \<times> 'v) list" where
  "dict_of pairs = foldl (\<lambda>d (k, v). dict_setitem d k v) [] pairs"

text \<open>
  \<^verbatim>\<open>sorted(d.items())\<close> orders the items by key; two items of a dictionary never have
  the same key, so the values are never compared.
\<close>

definition source_features :: "('k::linorder \<times> 'v) list \<Rightarrow> ('k \<times> 'v) list" where
  "source_features emb = dict_of (sort_key fst emb)"

text \<open>Lines 194 and 195, on the dictionary \<^verbatim>\<open>source_features\<close>.\<close>

definition source_mapping_indeces :: "('k \<times> 'v) list \<Rightarrow> int list" where
  "source_mapping_indeces source_feats = map int [0 ..< length source_feats]"

definition source_mapping :: "('k \<times> 'v) list \<Rightarrow> ('k \<times> int) list" where
  "source_mapping source_feats =
     dict_of (zip (map fst source_feats) (source_mapping_indeces source_feats))"

text \<open>\<^verbatim>\<open>list(source_features)\<close> (line 309): the keys, in the dictionary's order.\<close>

definition list_mapping :: "('k \<times> 'v) list \<Rightarrow> 'k list" where
  "list_mapping source_feats = map fst source_feats"

text \<open>
  \<^verbatim>\<open>Series.map(d)\<close> with a dictionary looks every value up; a value that is not a key
  becomes NaN (here \<open>None\<close>).  It returns a column of the same length and has no raising
  branch.
\<close>

definition series_map :: "('k \<times> 'v) list \<Rightarrow> 'k list \<Rightarrow> 'v option list" where
  "series_map d col = map (map_of d) col"

text \<open>
  Lines 198 to 201 on one table: the \<^verbatim>\<open>user\<close> column is replaced by its image, then the
  \<^verbatim>\<open>item\<close> column; a column assignment keeps the rows and the other columns.
\<close>

definition set_user :: "'a list \<Rightarrow> ('u \<times> 'i \<times> 's) list \<Rightarrow> ('a \<times> 'i \<times> 's) list" where
  "set_user col rows = map (\<lambda>(c, r). (c, item r, score r)) (zip col rows)"

definition set_item :: "'a list \<Rightarrow> ('u \<times> 'i \<times> 's) list \<Rightarrow> ('u \<times> 'a \<times> 's) list" where
  "set_item col rows = map (\<lambda>(c, r). (user r, c, score r)) (zip col rows)"

definition remap_ratings ::
  "('k \<times> int) list \<Rightarrow> ('k \<times> 'k \<times> 'l) list \<Rightarrow> (int option \<times> int option \<times> 'l) list" where
  "remap_ratings mapping ratings =
     (let ratings1 = set_user (series_map mapping (map user ratings)) ratings
      in set_item (series_map mapping (map item ratings1)) ratings1)"

subsection \<open>\<^verbatim>\<open>test\<close> (lines 105 to 148)\<close>

text \<open>
  The network and its training are PyTorch's.  \<open>train_model\<close> stands for \<^verbatim>\<open>train\<close>
  (lines 47 to 102: ratings, batch size, epochs, device, model class, features, dropout),
  \<open>forward\<close> for the call \<^verbatim>\<open>model(model_input)\<close> followed by \<^verbatim>\<open>squeeze\<close> on a device;
  both return or raise.  \<open>nan_as_int\<close> is what the platform's cast of NaN to a 32-bit
  integer gives, and \<open>float32\<close> is the cast \<^verbatim>\<open>.float()\<close> of line 137 on a score; the
  type of scores is a linear order (no NaN among them).  The dropout value, a float the
  program only passes on and prints, is carried as the text \<^verbatim>\<open>str\<close> gives.
\<close>

record ('m, 't, 'l, 's) renv =
  cuda_available :: bool
  nan_as_int :: int
  train_model ::
    "(int option \<times> int option \<times> 'l) list \<Rightarrow> int \<Rightarrow> int \<Rightarrow> string \<Rightarrow> string \<Rightarrow> 't list
       \<Rightarrow> string \<Rightarrow> exn + 'm"
  forward :: "'m \<Rightarrow> string \<Rightarrow> int list \<Rightarrow> int list \<Rightarrow> string \<Rightarrow> exn + 's list"
  float32 :: "'s \<Rightarrow> 's"

text \<open>
  Modelled from the spec: \<^verbatim>\<open>RecSysDataset\<close> (\<^verbatim>\<open>recsys_dataset.py\<close> is not among the
  sources).  A rating row is (user-id, item-id, label); the data set yields the rows of
  the table, in order.
\<close>

definition RecSysDataset :: "('u \<times> 'i \<times> 'l) list \<Rightarrow> ('u \<times> 'i \<times> 'l) list" where
  "RecSysDataset ratings = ratings"

function batches :: "nat \<Rightarrow> 'a list \<Rightarrow> 'a list list" where
  "batches n xs = (if n = 0 \<or> xs = [] then [] else take n xs # batches n (drop n xs))"
  by pat_completeness auto
termination
  by (relation "measure (\<lambda>(n, xs). length xs)") auto

declare batches.simps [simp del]

text \<open>
  \<^verbatim>\<open>DataLoader(ds, shuffle=False, batch_size=b)\<close>: consecutive batches of \<open>b\<close> rows, the
  last one shorter; a batch size that is not positive raises \<^verbatim>\<open>ValueError\<close>.
\<close>

definition DataLoader :: "int \<Rightarrow> 'a list \<Rightarrow> exn + 'a list list" where
  "DataLoader batch_size ds =
     (if batch_size \<le> 0
      then Inl (Exn ValueError ''batch_size should be a positive integer value'')
      else Inr (batches (nat batch_size) ds))"

text \<open>
  \<^verbatim>\<open>.int()\<close> casts to 32-bit integers: an integer is reduced modulo \<open>2^32\<close> into
  \<open>-2^31 \<dots> 2^31 - 1\<close>, NaN becomes the platform's value.  (A column that holds a NaN
  holds floats; an integer within the 32-bit range is cast to itself from either type.)
\<close>

definition wrap32 :: "int \<Rightarrow> int" where
  "wrap32 i = (i + 2147483648) mod 4294967296 - 2147483648"

fun tensor_int :: "int \<Rightarrow> int option \<Rightarrow> int" where
  "tensor_int nan (Some i) = wrap32 i"
| "tensor_int nan None = wrap32 nan"

text \<open>\<^verbatim>\<open>batch[0].int()\<close> and \<^verbatim>\<open>batch[1].int()\<close>: a column of a batch, cast.\<close>

definition idx_column ::
  "('m, 't, 'l, 's) renv \<Rightarrow> ('r \<Rightarrow> int option) \<Rightarrow> 'r list \<Rightarrow> int list" where
  "idx_column env col batch = map (\<lambda>r. tensor_int (nan_as_int env) (col r)) batch"

text \<open>\<^verbatim>\<open>torch.hstack\<close> of a list of one-dimensional tensors; the empty list raises.\<close>

definition hstack :: "'a list list \<Rightarrow> exn + 'a list" where
  "hstack ts =
     (if ts = [] then Inl (Exn RuntimeError ''hstack expects a non-empty TensorList'')
      else Inr (concat ts))"

text \<open>The loop of lines 118 to 133, with the three lists it appends to.\<close>

fun test_loop ::
  "('m, 't, 'l, 's) renv \<Rightarrow> 'm \<Rightarrow> string \<Rightarrow> string \<Rightarrow> (int option \<times> int option \<times> 'l) list list
     \<Rightarrow> int list list \<times> int list list \<times> 's list list
     \<Rightarrow> exn + (int list list \<times> int list list \<times> 's list list)" where
  "test_loop env model device dropout_value [] acc = Inr acc"
| "test_loop env model device dropout_value (batch # rest) (user_idxs, item_idxs, scores) =
     (let user_idx = idx_column env user batch;
          item_idx = idx_column env item batch
      in bindS (forward env model device user_idx item_idx dropout_value) (\<lambda>score.
           test_loop env model device dropout_value rest
             (user_idxs @ [user_idx], item_idxs @ [item_idx], scores @ [score])))"

text \<open>
  \<^verbatim>\<open>DataFrame.from_records(zip(user_idxs, item_idxs, scores))\<close>: \<^verbatim>\<open>zip\<close> stops at the
  shortest of the three.
\<close>

definition from_records :: "'u list \<Rightarrow> 'i list \<Rightarrow> 's list \<Rightarrow> ('u \<times> 'i \<times> 's) list" where
  "from_records us is ss = zip us (zip is ss)"

text \<open>
  \<^verbatim>\<open>sort_values(by=['user', 'score'], ascending=[True, False])\<close>.  With two keys pandas
  sorts lexicographically and stably: by \<^verbatim>\<open>user\<close> ascending, then by \<^verbatim>\<open>score\<close>
  descending, rows with the same pair of keys staying in their order.  It is written
  here as an insertion sort that puts a row before the first row it does not come after.
  Scores are taken from a linear order (no NaN among them).
\<close>

definition row_le :: "'u::linorder \<times> 'i \<times> 's::linorder \<Rightarrow> 'u \<times> 'i \<times> 's \<Rightarrow> bool" where
  "row_le a b = (user a < user b \<or> (user a = user b \<and> score b \<le> score a))"

fun insort_row ::
  "'u::linorder \<times> 'i \<times> 's::linorder \<Rightarrow> ('u \<times> 'i \<times> 's) list \<Rightarrow> ('u \<times> 'i \<times> 's) list" where
  "insort_row r [] = [r]"
| "insort_row r (x # xs) = (if row_le r x then r # x # xs else x # insort_row r xs)"

definition sort_values :: "('u::linorder \<times> 'i \<times> 's::linorder) list \<Rightarrow> ('u \<times> 'i \<times> 's) list" where
  "sort_values rows = foldr insort_row rows []"

definition test ::
  "('m, 't, 'l, 's::linorder) renv \<Rightarrow> 'm \<Rightarrow> (int option \<times> int option \<times> 'l) list \<Rightarrow> int
     \<Rightarrow> string \<Rightarrow> string \<Rightarrow> exn + (int \<times> int \<times> 's) list" where
  "test env model test_ratings batch_size device dropout_value =
     bindS (DataLoader batch_size (RecSysDataset test_ratings)) (\<lambda>test_dl.
     bindS (test_loop env model device dropout_value test_dl ([], [], []))
       (\<lambda>(user_idxs, item_idxs, scores).
     bindS (hstack user_idxs) (\<lambda>user_col.
     bindS (hstack item_idxs) (\<lambda>item_col.
     bindS (hstack scores) (\<lambda>score_col.
     Inr (sort_values (from_records (map wrap32 user_col) (map wrap32 item_col)
            (map (float32 env) score_col))))))))"

subsection \<open>Back-mapping and top-K (lines 308 to 321)\<close>

text \<open>
  \<^verbatim>\<open>predictions['user'].map(lambda x: list_mapping[x])\<close>, then the same on \<^verbatim>\<open>item\<close>:
  the first index out of range raises.
\<close>

definition remap_predictions ::
  "'k list \<Rightarrow> (int \<times> int \<times> 's) list \<Rightarrow> exn + ('k \<times> 'k \<times> 's) list" where
  "remap_predictions mapping predictions =
     bindS (map_exn (list_getitem mapping) (map user predictions)) (\<lambda>user_col.
     let predictions1 = set_user user_col predictions in
     bindS (map_exn (list_getitem mapping) (map item predictions1)) (\<lambda>item_col.
     Inr (set_item item_col predictions1)))"

text \<open>
  \<^verbatim>\<open>groupby('user').head(n)\<close>: the rows whose number within their group, counted from
  0 in table order, is below \<open>n\<close>; the rows kept stay in table order.  \<open>seen\<close> counts the
  rows met so far per user.
\<close>

fun head_rows :: "nat \<Rightarrow> ('u \<Rightarrow> nat) \<Rightarrow> ('u \<times> 'i \<times> 's) list \<Rightarrow> ('u \<times> 'i \<times> 's) list" where
  "head_rows n seen [] = []"
| "head_rows n seen (r # rows) =
     (if seen (user r) < n
      then r # head_rows n (seen(user r := seen (user r) + 1)) rows
      else head_rows n (seen(user r := seen (user r) + 1)) rows)"

definition groupby_user_head :: "nat \<Rightarrow> ('u \<times> 'i \<times> 's) list \<Rightarrow> ('u \<times> 'i \<times> 's) list" where
  "groupby_user_head n rows = head_rows n (\<lambda>_. 0) rows"

subsection \<open>The configuration loop (lines 204 to 324)\<close>

definition feature_list :: "string list list" where
  "feature_list =
    [[''dbbook_s=1_CompGCN_k=64_l=1''], [''dbbook_s=1_CompGCN_k=64_l=2''], [''dbbook_s=1_CompGCN_k=64_l=3''],
     [''dbbook_s=2_CompGCN_k=64_l=1''], [''dbbook_s=2_CompGCN_k=64_l=2''], [''dbbook_s=2_CompGCN_k=64_l=3''],
     [''dbbook_s=3_CompGCN_k=64_l=1''], [''dbbook_s=3_CompGCN_k=64_l=2''], [''dbbook_s=3_CompGCN_k=64_l=3''],
     [''dbbook_s=4_CompGCN_k=64_l=1''], [''dbbook_s=4_CompGCN_k=64_l=2''], [''dbbook_s=4_CompGCN_k=64_l=3''],
     [''dbbook_s=5_CompGCN_k=64_l=1''], [''dbbook_s=5_CompGCN_k=64_l=2''], [''dbbook_s=5_CompGCN_k=64_l=3''],
     [''dbbook_s=6_CompGCN_k=64_l=1''], [''dbbook_s=6_CompGCN_k=64_l=2''], [''dbbook_s=6_CompGCN_k=64_l=3''],
     [''dbbook_s=7_CompGCN_k=64_l=1''], [''dbbook_s=7_CompGCN_k=64_l=2''], [''dbbook_s=7_CompGCN_k=64_l=3''],
     [''dbbook_s=8_CompGCN_k=64_l=1''], [''dbbook_s=8_CompGCN_k=64_l=2''], [''dbbook_s=8_CompGCN_k=64_l=3'']]"

text \<open>The class \<^verbatim>\<open>RecSysNetworkBasic\<close> is carried as its \<^verbatim>\<open>__name__\<close>.\<close>

definition RecSys_models :: "string list" where
  "RecSys_models = [''RecSysNetworkBasic'']"

definition dropout_values :: "string list" where
  "dropout_values = [''0.2'']"

definition setting_sources :: "string list" where
  "setting_sources = [''uni'']"

fun join :: "string \<Rightarrow> string list \<Rightarrow> string" where
  "join sep [] = []"
| "join sep [x] = x"
| "join sep (x # y # ys) = x @ sep @ join sep (y # ys)"

text \<open>Lines 216 to 221.\<close>

definition setting_names :: "string list" where
  "setting_names =
     map (\<lambda>x. ''drop'' @ dropout_values ! 0 @ ''_'' @ setting_sources ! 0 @ ''_''
                @ RecSys_models ! 0 @ ''_'' @ join ''_'' x) feature_list"

text \<open>
  What a path of the driver holds: a directory, a model saved by \<^verbatim>\<open>torch.save\<close>, or a
  predictions table written by \<^verbatim>\<open>to_csv(sep='\t', index=False, header=None)\<close>.  The
  state has the files and, as a record of what ran, the calls of \<^verbatim>\<open>train\<close>,
  \<^verbatim>\<open>torch.load\<close> and \<^verbatim>\<open>test\<close> in order.  Printing to the terminal is left out.
\<close>

datatype ('m, 'k, 's) rcontent = RDir | ModelFile 'm | Table "('k \<times> 'k \<times> 's) list"

datatype call = Train | Load string | Test

record ('m, 'k, 's) rstate =
  rfs :: "string \<Rightarrow> ('m, 'k, 's) rcontent option"
  calls :: "call list"

definition strip_slash :: "string \<Rightarrow> string" where
  "strip_slash p = (if p \<noteq> [] \<and> last p = CHR ''/'' then butlast p else p)"

text \<open>
  \<^verbatim>\<open>os.makedirs(p, exist_ok=True)\<close>: nothing to do on a directory, an error on a file.
  Only the directory itself is recorded, not the ones above it.
\<close>

definition makedirs :: "string \<Rightarrow> (('m, 'k, 's) rstate, unit) run" where
  "makedirs p = (\<lambda>st. case rfs st (strip_slash p) of
       None \<Rightarrow> (Inr (), st\<lparr>rfs := (rfs st)(strip_slash p \<mapsto> RDir)\<rparr>)
     | Some RDir \<Rightarrow> (Inr (), st)
     | Some _ \<Rightarrow> (Inl (Exn OSError p), st))"

definition rexists :: "('m, 'k, 's) rstate \<Rightarrow> string \<Rightarrow> bool" where
  "rexists st p = (rfs st p \<noteq> None)"

definition rwrite :: "string \<Rightarrow> ('m, 'k, 's) rcontent \<Rightarrow> (('m, 'k, 's) rstate, unit) run" where
  "rwrite p c = (\<lambda>st.
     if rfs st (dirname p) \<noteq> Some RDir \<or> rfs st p = Some RDir then (Inl (Exn OSError p), st)
     else (Inr (), st\<lparr>rfs := (rfs st)(p \<mapsto> c)\<rparr>))"

definition torch_load :: "string \<Rightarrow> (('m, 'k, 's) rstate, 'm) run" where
  "torch_load p = (\<lambda>st. case rfs st p of
       Some (ModelFile m) \<Rightarrow> (Inr m, st\<lparr>calls := calls st @ [Load p]\<rparr>)
     | _ \<Rightarrow> (Inl (Exn OtherException p), st\<lparr>calls := calls st @ [Load p]\<rparr>))"

definition call_train ::
  "('m, 't, 'l, 's) renv \<Rightarrow> (int option \<times> int option \<times> 'l) list \<Rightarrow> int \<Rightarrow> int \<Rightarrow> string
     \<Rightarrow> string \<Rightarrow> 't list \<Rightarrow> string \<Rightarrow> (('m, 'k, 's) rstate, 'm) run" where
  "call_train env train_ratings batch_size epochs device model_class features dropout_value =
     (\<lambda>st. (train_model env train_ratings batch_size epochs device model_class features
               dropout_value,
             st\<lparr>calls := calls st @ [Train]\<rparr>))"

definition call_test ::
  "('m, 't, 'l, 's::linorder) renv \<Rightarrow> 'm \<Rightarrow> (int option \<times> int option \<times> 'l) list \<Rightarrow> int
     \<Rightarrow> string \<Rightarrow> string \<Rightarrow> (('m, 'k, 's) rstate, (int \<times> int \<times> 's) list) run" where
  "call_test env model test_ratings batch_size device dropout_value =
     (\<lambda>st. (test env model test_ratings batch_size device dropout_value,
             st\<lparr>calls := calls st @ [Test]\<rparr>))"

text \<open>Lines 304 to 321: evaluation, back-mapping, the two top-K tables and their files.\<close>

definition evaluate ::
  "('m, 't, 'l, 's::linorder) renv \<Rightarrow> (int option \<times> int option \<times> 'l) list \<Rightarrow> ('k \<times> 'v) list
     \<Rightarrow> string \<Rightarrow> string \<Rightarrow> int \<Rightarrow> string \<Rightarrow> string \<Rightarrow> 'm \<Rightarrow> (('m, 'k, 's) rstate, unit) run" where
  "evaluate env test_ratings source_feats preds_file_t5 preds_file_t10 test_batch_size device
       dropout_value trained_model =
     bindE (call_test env trained_model test_ratings test_batch_size device dropout_value)
       (\<lambda>predictions0.
     bindE (lift (remap_predictions (list_mapping source_feats) predictions0)) (\<lambda>predictions.
     let top5 = groupby_user_head 5 predictions;
         top10 = groupby_user_head 10 predictions in
     bindE (rwrite preds_file_t5 (Table top5)) (\<lambda>_.
     rwrite preds_file_t10 (Table top10))))"

text \<open>
  The names built in lines 252 to 260 and the device chosen in lines 266 to 268.
  \<^verbatim>\<open>x\<close> in lines 252 and 253 is the variable the loop of line 219 left behind, the last
  element of \<^verbatim>\<open>feature_list\<close>.
\<close>

definition preds_folder :: string where
  "preds_folder =
     (let x = last feature_list
      in ''reports/dbbook/predictions/'' @ setting_sources ! (length x - 1) @ ''/'')"

definition model_folder :: string where
  "model_folder =
     (let x = last feature_list
      in ''reports/dbbok/models/'' @ setting_sources ! (length x - 1) @ ''/'')"

definition preds_file_t5 :: "string \<Rightarrow> string" where
  "preds_file_t5 setting_name = preds_folder @ ''top5_'' @ setting_name @ ''.tsv''"

definition preds_file_t10 :: "string \<Rightarrow> string" where
  "preds_file_t10 setting_name = preds_folder @ ''top10_'' @ setting_name @ ''.tsv''"

definition model_name :: "string \<Rightarrow> string" where
  "model_name setting_name = model_folder @ setting_name @ ''.pth''"

definition device_of :: "('m, 't, 'l, 's) renv \<Rightarrow> string" where
  "device_of env = (if cuda_available env then ''cuda:0'' else ''cpu'')"

text \<open>
  One iteration of the loop of line 235.  \<open>force\<close> is the local variable of line 278,
  which the script sets to \<^verbatim>\<open>True\<close>.  The \<^verbatim>\<open>continue\<close> of line 285 ends the
  iteration.  There is no \<^verbatim>\<open>try\<close> in the loop.
\<close>

definition run_config ::
  "bool \<Rightarrow> ('m, 't, 'l, 's::linorder) renv \<Rightarrow> (int option \<times> int option \<times> 'l) list
     \<Rightarrow> (int option \<times> int option \<times> 'l) list \<Rightarrow> (pyval \<times> 't) list \<Rightarrow> ('k \<times> 'v) list
     \<Rightarrow> nat \<times> string list \<Rightarrow> (('m, 'k, 's) rstate, unit) run" where
  "run_config force env train_ratings test_ratings tensors_dict source_feats = (\<lambda>(i, config).
     bindE (lift (map_exn (\<lambda>model. dict_getitem tensors_dict (PStr model)) config)) (\<lambda>features.
     let RecSys_model = RecSys_models ! 0 in
     bindE (lift (list_getitem setting_names (int i))) (\<lambda>setting_name.
     bindE (makedirs preds_folder) (\<lambda>_.
     bindE (makedirs model_folder) (\<lambda>_.
     let device = device_of env;
         epochs = 30;
         train_batch_size = 512;
         test_batch_size = 512;
         dropout_value = dropout_values ! 0 in
     (\<lambda>st.
        if rexists st (model_name setting_name) \<and> force = False
        then (if rexists st (preds_file_t5 setting_name) then (Inr (), st)
              else bindE (torch_load (model_name setting_name))
                     (evaluate env test_ratings source_feats (preds_file_t5 setting_name)
                        (preds_file_t10 setting_name) test_batch_size device dropout_value) st)
        else bindE
               (bindE (call_train env train_ratings train_batch_size epochs device RecSys_model
                         features dropout_value) (\<lambda>trained_model.
                bindE (rwrite (model_name setting_name) (ModelFile trained_model))
                  (\<lambda>_. ret trained_model)))
               (evaluate env test_ratings source_feats (preds_file_t5 setting_name)
                  (preds_file_t10 setting_name) test_batch_size device dropout_value) st))))))"

text \<open>
  The loop over \<^verbatim>\<open>enumerate(feature_list)\<close>, after the tables were read and remapped
  (lines 155 to 201): \<open>train_raw\<close> and \<open>test_raw\<close> are the rating tables as read,
  \<open>tensors_dict\<close> the embedding tensors by name, \<open>emb\<close> the dictionary unpickled at
  line 193.
\<close>

definition driver ::
  "bool \<Rightarrow> ('m, 't, 'l, 's::linorder) renv \<Rightarrow> ('k::linorder \<times> 'k \<times> 'l) list \<Rightarrow> ('k \<times> 'k \<times> 'l) list
     \<Rightarrow> (pyval \<times> 't) list \<Rightarrow> ('k \<times> 'v) list \<Rightarrow> (('m, 'k, 's) rstate, unit) run" where
  "driver force env train_raw test_raw tensors_dict emb =
     (let source_feats = source_features emb;
          mapping = source_mapping source_feats;
          train_ratings = remap_ratings mapping train_raw;
          test_ratings = remap_ratings mapping test_raw
      in for_each (run_config force env train_ratings test_ratings tensors_dict source_feats)
           (enumerate 0 feature_list))"

definition main :: "('m, 't, 'l, 's::linorder) renv \<Rightarrow> ('k::linorder \<times> 'k \<times> 'l) list
     \<Rightarrow> ('k \<times> 'k \<times> 'l) list \<Rightarrow> (pyval \<times> 't) list \<Rightarrow> ('k \<times> 'v) list
     \<Rightarrow> (('m, 'k, 's) rstate, unit) run" where
  "main = driver True"

section \<open>Notions used in the statements\<close>

text \<open>When \<^verbatim>\<open>xs[i]\<close> returns, and what it returns then.\<close>

definition in_range :: "'a list \<Rightarrow> int \<Rightarrow> bool" where
  "in_range xs i = (- int (length xs) \<le> i \<and> i < int (length xs))"

definition py_nth :: "'a list \<Rightarrow> int \<Rightarrow> 'a" where
  "py_nth xs i = xs ! nat (if i < 0 then int (length xs) + i else i)"

text \<open>A predictions row with both indices mapped back through a list.\<close>

definition back_row :: "'k list \<Rightarrow> int \<times> int \<times> 's \<Rightarrow> 'k \<times> 'k \<times> 's" where
  "back_row m p = (py_nth m (user p), py_nth m (item p), score p)"

text \<open>
  The rows \<^verbatim>\<open>test\<close> builds before it sorts them, from the score column the batches
  gave: the cast user and item columns of the rating table and the cast scores, row by
  row.
\<close>

definition unsorted_predictions ::
  "('m, 't, 'l, 's) renv \<Rightarrow> (int option \<times> int option \<times> 'l) list \<Rightarrow> 's list \<Rightarrow> (int \<times> int \<times> 's) list" where
  "unsorted_predictions env test_ratings scores =
     from_records (idx_column env user test_ratings) (idx_column env item test_ratings)
       (map (float32 env) scores)"

text \<open>An index that a 32-bit integer holds; NaN is no index.\<close>

definition fits_int32 :: "int option \<Rightarrow> bool" where
  "fits_int32 v = (case v of None \<Rightarrow> True | Some i \<Rightarrow> - 2147483648 \<le> i \<and> i < 2147483648)"

text \<open>What the cast gives for such a value.\<close>

definition index_value :: "('m, 't, 'l, 's) renv \<Rightarrow> int option \<Rightarrow> int" where
  "index_value env v = (case v of None \<Rightarrow> wrap32 (nan_as_int env) | Some i \<Rightarrow> i)"

text \<open>The network's answer to one batch.\<close>

definition batch_scores ::
  "('m, 't, 'l, 's) renv \<Rightarrow> 'm \<Rightarrow> string \<Rightarrow> string \<Rightarrow> (int option \<times> int option \<times> 'l) list
     \<Rightarrow> exn + 's list" where
  "batch_scores env model device dropout_value batch =
     forward env model device (idx_column env user batch) (idx_column env item batch)
       dropout_value"

text \<open>A path that \<^verbatim>\<open>os.makedirs(p, exist_ok=True)\<close> accepts.\<close>

definition dir_or_absent :: "('m, 'k, 's) rstate \<Rightarrow> string \<Rightarrow> bool" where
  "dir_or_absent st p = (rfs st p = None \<or> rfs st p = Some RDir)"

subsection \<open>Concrete inputs\<close>

text \<open>
  A library that accepts every triple file and trains, on a file system that has the
  directory \<^verbatim>\<open>results\<close>.
\<close>

definition demo_factory :: factory where
  "demo_factory =
     \<lparr>entity_to_id = [(''alice'', 0), (''book1'', 1), (''book2'', 2)],
      relation_to_id = [(''likes'', 0)]\<rparr>"

definition demo_kenv :: "(nat, int) kenv" where
  "demo_kenv =
     \<lparr>from_path = (\<lambda>path vocabulary. Inr demo_factory),
      pipeline = (\<lambda>training testing model dim layers epochs checkpoint. Inr 1),
      entity_representations = (\<lambda>result. Inr [[1, 2], [3, 4], [5, 6]]),
      save_to_directory_fails = (\<lambda>result folder. None)\<rparr>"

definition demo_files :: "string \<Rightarrow> (nat, int) content option" where
  "demo_files = (\<lambda>p. if p = ''results'' then Some Dir else None)"

text \<open>
  A network whose score of a pair is \<open>(user + 2 * item) mod 3\<close>, and a training that
  returns the model \<open>7\<close>.
\<close>

definition demo_forward :: "nat \<Rightarrow> string \<Rightarrow> int list \<Rightarrow> int list \<Rightarrow> string \<Rightarrow> exn + int list" where
  "demo_forward model device user_idx item_idx dropout_value =
     Inr (map (\<lambda>(u, i). (u + 2 * i) mod 3) (zip user_idx item_idx))"

definition demo_renv :: "(nat, nat, int, int) renv" where
  "demo_renv =
     \<lparr>cuda_available = False,
      nan_as_int = - 2147483648,
      train_model = (\<lambda>ratings batch_size epochs device model_class features dropout. Inr 7),
      forward = demo_forward,
      float32 = (\<lambda>s. s)\<rparr>"

definition demo_test_ratings :: "(int option \<times> int option \<times> int) list" where
  "demo_test_ratings =
     [(Some 1, Some 0, 1), (Some 0, Some 2, 0), (Some 1, Some 1, 1), (Some 0, Some 1, 1),
      (Some 1, Some 2, 0), (Some 1, Some 3, 1)]"

text \<open>
  Seven predictions for two users with indices into a mapping of three identifiers, and
  the table they become: sorted, then mapped back.
\<close>

definition demo_mapping :: "int list" where
  "demo_mapping = [10, 20, 30]"

definition demo_raw :: "(int \<times> int \<times> int) list" where
  "demo_raw = [(1, 0, 3), (0, 2, 1), (1, 1, 9), (1, 2, 1), (1, 0, 9), (1, 1, 4), (1, 2, 7)]"

definition demo_predictions :: "(int \<times> int \<times> int) list" where
  "demo_predictions =
     [(10, 30, 1), (20, 20, 9), (20, 10, 9), (20, 30, 7), (20, 20, 4), (20, 10, 3), (20, 30, 1)]"

text \<open>
  An unpickled embedding dictionary with four keys, and a driver state in which the two
  output directories exist.
\<close>

definition demo_emb :: "(int \<times> nat) list" where
  "demo_emb = [(30, 2), (10, 0), (40, 3), (20, 1)]"

definition demo_rstate :: "(nat, int, int) rstate" where
  "demo_rstate =
     \<lparr>rfs = (\<lambda>p. if p = ''reports/dbbook/predictions/uni'' \<or> p = ''reports/dbbok/models/uni''
                 then Some RDir else None),
      calls = []\<rparr>"

text \<open>
  The embedding tensors by name (one name), a state in which the model of the first
  configuration is saved, one in which its top-5 file exists as well, and a library whose
  training raises.
\<close>

definition demo_tensors_dict :: "(pyval \<times> nat) list" where
  "demo_tensors_dict = [(PStr ''dbbook_s=1_CompGCN_k=64_l=1'', 0)]"

definition demo_reuse_state :: "(nat, int, int) rstate" where
  "demo_reuse_state =
     demo_rstate\<lparr>rfs := (rfs demo_rstate)(model_name (setting_names ! 0) \<mapsto> ModelFile 7)\<rparr>"

definition demo_skip_state :: "(nat, int, int) rstate" where
  "demo_skip_state =
     demo_reuse_state\<lparr>rfs := (rfs demo_reuse_state)(preds_file_t5 (setting_names ! 0) \<mapsto> Table [])\<rparr>"

definition demo_failing_renv :: "(nat, nat, int, int) renv" where
  "demo_failing_renv =
     demo_renv\<lparr>train_model := (\<lambda>ratings batch_size epochs device model_class features dropout.
        Inl (Exn RuntimeError ''CUDA out of memory''))\<rparr>"

text \<open>A library that finds no triple file.\<close>

definition demo_missing_kenv :: "(nat, int) kenv" where
  "demo_missing_kenv =
     demo_kenv\<lparr>from_path := (\<lambda>path vocabulary. Inl (Exn OSError ''No such file''))\<rparr>"

section \<open>The sweep stops at its first configuration\<close>

lemma bindE_Inl: "m s = (Inl e, s') \<Longrightarrow> bindE m f s = (Inl e, s')"
  by (simp add: bindE_def)

lemma bindE_Inr: "m s = (Inr x, s') \<Longrightarrow> bindE m f s = f x s'"
  by (simp add: bindE_def)

lemma bindE_Inr_iff:
  "bindE m f s = (Inr y, s'') \<longleftrightarrow> (\<exists>x s'. m s = (Inr x, s') \<and> f x s' = (Inr y, s''))"
  by (auto simp: bindE_def split: prod.splits sum.splits)

lemma str_int_digits:
  "str_int 1 = ''1''" "str_int 2 = ''2''" "str_int 3 = ''3''" "str_int 8 = ''8''"
  "str_int 64 = ''64''"
  by (simp_all add: str_int_def str_nat.simps digit_char_def)

lemma configurations_first:
  "configurations = (''CompGCN'', 64, ''ml1m'', PInt 8, 1) # tl configurations"
  by (simp add: configurations_def sweep_over_def emb_models_def emb_dims_def datasets_def
      settings_def n_layers_def)

lemma configurations_integer_setting:
  "(emb_model, emb_dim, dataset, setting, n_layer) \<in> set configurations \<Longrightarrow> \<exists>i. setting = PInt i"
  by (auto simp: configurations_def sweep_over_def settings_def)

lemma setting_kgs_integer_key:
  "dict_getitem setting_kgs (PInt i) = Inl (Exn KeyError (str_int i))"
  by (simp add: dict_getitem_def setting_kgs_def)

lemma sweep_body_integer_setting:
  "sweep_body setting_kgs env (emb_model, emb_dim, dataset, PInt i, n_layer) st =
     (Inl (Exn KeyError (str_int i)),
      st\<lparr>stdout := stdout st @ [''Starting '' @ config_name dataset (PInt i) emb_model emb_dim n_layer],
         log_file := log_file st @ ''Starting'' @ config_name dataset (PInt i) emb_model emb_dim n_layer\<rparr>)"
  by (simp add: sweep_body_def Let_def bindE_def print_line_def log_write_def lift_def
      setting_kgs_integer_key)

text \<open>
  Where the \<^verbatim>\<open>try\<close> block is reached (a dictionary that has the key), the body never
  ends with an exception of class \<^verbatim>\<open>Exception\<close>: the handler logs it and returns.
\<close>

lemma on_error_returns: "\<exists>st'. on_error printline e st = (Inr (), st')"
  by (simp add: on_error_def bindE_def print_line_def log_write_def)

lemma sweep_body_catches:
  assumes "dict_getitem kgs setting = Inr kg"
    and "sweep_body kgs env (emb_model, emb_dim, dataset, setting, n_layer) st = (Inl e, st')"
  shows "\<not> is_Exception e"
proof
  assume exc: "is_Exception e"
  let ?name = "config_name dataset setting emb_model emb_dim n_layer"
  let ?st1 = "st\<lparr>stdout := stdout st @ [''Starting '' @ ?name],
                  log_file := log_file st @ ''Starting'' @ ?name\<rparr>"
  obtain body where body: "sweep_body kgs env (emb_model, emb_dim, dataset, setting, n_layer) st =
      try_except_Exception body (on_error ?name) ?st1"
    by (simp add: sweep_body_def Let_def bindE_def print_line_def log_write_def lift_def assms(1))
  obtain r s where rs: "body ?st1 = (r, s)" by (cases "body ?st1") auto
  show False
  proof (cases r)
    case (Inl e')
    show False
    proof (cases "is_Exception e'")
      case True
      with on_error_returns[of ?name e' s] assms(2) body rs Inl show False
        by (auto simp: try_except_Exception_def)
    next
      case False
      with assms(2) body rs Inl exc show False by (simp add: try_except_Exception_def)
    qed
  next
    case (Inr u)
    with assms(2) body rs show False by (simp add: try_except_Exception_def)
  qed
qed

text \<open>
  C1.  The claim: an exception raised while a configuration is processed is caught and
  logged with the configuration's name, the sweep goes on to the next configuration, and
  no single configuration's failure aborts the sweep.

  The script does not do this.  \<^verbatim>\<open>settings\<close> holds integers and \<^verbatim>\<open>setting_kgs\<close> has
  string keys, so line 49, which is before the \<^verbatim>\<open>try\<close> of line 60, raises
  \<^verbatim>\<open>KeyError\<close> in the first configuration.  Whatever the library and the file system
  are, the sweep ends there with that exception: the log holds the first configuration's
  start entry and nothing else, neither an error entry nor the start of a second
  configuration.
\<close>

theorem sweep_aborts_in_first_configuration:
  "sweep env (initial files) =
     (Inl (Exn KeyError ''8''),
      \<lparr>log_file = ''Startingml1m_setting_8_CompGCN_k=64_l=1'',
       stdout = [''Starting ml1m_setting_8_CompGCN_k=64_l=1''],
       fs = files\<rparr>)"
  unfolding sweep_def
  by (subst configurations_first)
    (simp add: sweep_body_integer_setting bindE_def initial_def config_name_def str_int_digits)

text \<open>
  C2.  The claim: with valid train and test triple files at the paths the sweep derives
  for a configuration, the sweep completes that configuration and writes an embedding
  matrix with one row per entity of the train file.

  The script derives no path.  For each of its configurations, and whatever the library
  does (so also when every triple file is valid), the loop body ends with the
  \<^verbatim>\<open>KeyError\<close> of line 49 and leaves the file system as it was: no embedding matrix
  is written.
\<close>

theorem no_configuration_derives_its_paths:
  assumes "c \<in> set configurations"
  shows "\<exists>k st'. sweep_body setting_kgs env c st = (Inl (Exn KeyError k), st') \<and> fs st' = fs st"
proof -
  obtain emb_model emb_dim dataset setting n_layer
    where c: "c = (emb_model, emb_dim, dataset, setting, n_layer)"
    by (metis prod_cases5)
  with assms obtain i where "setting = PInt i"
    using configurations_integer_setting by blast
  with c show ?thesis by (simp add: sweep_body_integer_setting)
qed

theorem no_configuration_derives_its_paths_witness:
  "list_ex (\<lambda>c. c = (''CompGCN'', 64, ''dbbook'', PInt 3, 2)) configurations \<and>
   (\<exists>k st'. sweep_body setting_kgs demo_kenv (''CompGCN'', 64, ''dbbook'', PInt 3, 2)
               (initial demo_files) = (Inl (Exn KeyError k), st') \<and>
             fs st' = fs (initial demo_files))"
proof -
  have mem: "(''CompGCN'', 64, ''dbbook'', PInt 3, 2) \<in> set configurations"
    by (simp add: configurations_def sweep_over_def emb_models_def emb_dims_def datasets_def
        settings_def n_layers_def)
  from no_configuration_derives_its_paths [OF mem, of demo_kenv "initial demo_files"] mem
  show ?thesis by (simp add: list_ex_iff)
qed

section \<open>The predictions table is sorted\<close>

lemma row_le_trans: "row_le a b \<Longrightarrow> row_le b c \<Longrightarrow> row_le a c"
  by (auto simp: row_le_def)

lemma not_row_le: "\<not> row_le a b \<Longrightarrow> row_le b a"
  by (auto simp: row_le_def)

lemma set_insort_row: "set (insort_row r xs) = insert r (set xs)"
  by (induction xs) auto

lemma mset_insort_row: "mset (insort_row r xs) = add_mset r (mset xs)"
  by (induction xs) auto

lemma sorted_insort_row: "sorted_wrt row_le xs \<Longrightarrow> sorted_wrt row_le (insort_row r xs)"
proof (induction xs)
  case Nil
  then show ?case by simp
next
  case (Cons x xs)
  show ?case
  proof (cases "row_le r x")
    case True
    have "\<forall>y\<in>set xs. row_le r y"
    proof
      fix y assume "y \<in> set xs"
      with Cons.prems have "row_le x y" by simp
      with True show "row_le r y" by (rule row_le_trans)
    qed
    with True Cons.prems show ?thesis by simp
  next
    case False
    then have "row_le x r" by (rule not_row_le)
    with False Cons show ?thesis by (auto simp: set_insort_row)
  qed
qed

lemma mset_sort_values: "mset (sort_values xs) = mset xs"
  by (induction xs) (simp_all add: sort_values_def mset_insort_row)

lemma set_sort_values: "set (sort_values xs) = set xs"
  using mset_sort_values[of xs] by (metis set_mset_mset)

lemma sorted_sort_values: "sorted_wrt row_le (sort_values xs)"
  by (induction xs) (simp_all add: sort_values_def sorted_insort_row)

text \<open>Stability: a row goes in front of the rows that have its two keys.\<close>

lemma filter_key_insort_row:
  "filter (\<lambda>x. user x = u \<and> score x = s) (insort_row r xs) =
     (if user r = u \<and> score r = s then r # filter (\<lambda>x. user x = u \<and> score x = s) xs
      else filter (\<lambda>x. user x = u \<and> score x = s) xs)"
  by (induction xs) (auto simp: row_le_def)

lemma stable_sort_values:
  "filter (\<lambda>x. user x = u \<and> score x = s) (sort_values xs) =
   filter (\<lambda>x. user x = u \<and> score x = s) xs"
  by (induction xs) (simp_all add: sort_values_def filter_key_insort_row)

lemma sorted_user: "sorted_wrt row_le xs \<Longrightarrow> sorted (map user xs)"
  by (induction xs) (auto simp: row_le_def)

lemma sorted_within_user:
  "sorted_wrt row_le xs \<Longrightarrow>
   sorted_wrt (\<lambda>a b. score b \<le> score a) (filter (\<lambda>r. user r = u) xs)"
  by (induction xs) (auto simp: row_le_def)

subsection \<open>Batches and the loop of \<^verbatim>\<open>test\<close>\<close>

lemma concat_batches: "0 < n \<Longrightarrow> concat (batches n xs) = xs"
proof (induction n xs rule: batches.induct)
  case (1 n xs)
  show ?case
  proof (cases "xs = []")
    case True
    then show ?thesis by (simp add: batches.simps)
  next
    case False
    with 1 show ?thesis by (subst batches.simps) simp
  qed
qed

lemma batches_nonempty: "0 < n \<Longrightarrow> xs \<noteq> [] \<Longrightarrow> batches n xs \<noteq> []"
  by (subst batches.simps) simp

lemma wrap32_idem: "wrap32 (wrap32 i) = wrap32 i"
  by (simp add: wrap32_def)

lemma wrap32_fits: "- 2147483648 \<le> i \<Longrightarrow> i < 2147483648 \<Longrightarrow> wrap32 i = i"
  by (simp add: wrap32_def)

lemma wrap32_idx_column: "map wrap32 (idx_column env col rows) = idx_column env col rows"
proof -
  have "wrap32 (tensor_int nan v) = tensor_int nan v" for nan v
    by (cases v) (simp_all add: wrap32_idem)
  then show ?thesis by (simp add: idx_column_def)
qed

lemma idx_column_fits:
  assumes "\<forall>r\<in>set rows. fits_int32 (col r)"
  shows "idx_column env col rows = map (\<lambda>r. index_value env (col r)) rows"
proof -
  have "tensor_int (nan_as_int env) (col r) = index_value env (col r)" if "r \<in> set rows" for r
    using assms that
    by (cases "col r") (auto simp: fits_int32_def index_value_def wrap32_fits)
  then show ?thesis by (simp add: idx_column_def)
qed

lemma idx_column_concat:
  "concat (map (idx_column env col) bs) = idx_column env col (concat bs)"
  by (induction bs) (simp_all add: idx_column_def)

lemma length_concat_scores:
  "list_all2 (\<lambda>b sc. length sc = length b) bs ss \<Longrightarrow> length (concat ss) = length (concat bs)"
  by (induction bs ss rule: list_all2_induct) simp_all

lemma test_loop_Inr_D:
  "test_loop env model device dv bs (U, I, S) = Inr (U', I', S') \<Longrightarrow>
     U' = U @ map (idx_column env user) bs \<and>
     I' = I @ map (idx_column env item) bs \<and>
     (\<exists>ss. list_all2 (\<lambda>b sc. batch_scores env model device dv b = Inr sc) bs ss \<and> S' = S @ ss)"
proof (induction bs arbitrary: U I S)
  case Nil
  then show ?case by simp
next
  case (Cons b bs)
  from Cons.prems obtain sc where sc: "batch_scores env model device dv b = Inr sc"
    and rest: "test_loop env model device dv bs
        (U @ [idx_column env user b], I @ [idx_column env item b], S @ [sc]) = Inr (U', I', S')"
    by (auto simp: bindS_def Let_def batch_scores_def split: sum.splits)
  from Cons.IH[OF rest] obtain ss where
    ss: "list_all2 (\<lambda>b sc. batch_scores env model device dv b = Inr sc) bs ss"
    and "S' = (S @ [sc]) @ ss"
    and "U' = (U @ [idx_column env user b]) @ map (idx_column env user) bs"
    and "I' = (I @ [idx_column env item b]) @ map (idx_column env item) bs"
    by blast
  moreover from sc ss
  have "list_all2 (\<lambda>b sc. batch_scores env model device dv b = Inr sc) (b # bs) (sc # ss)"
    by simp
  ultimately show ?case by (intro conjI exI[of _ "sc # ss"]) simp_all
qed

lemma test_loop_total:
  assumes "\<forall>b\<in>set bs. \<exists>ss. batch_scores env model device dv b = Inr ss"
  shows "\<exists>r. test_loop env model device dv bs acc = Inr r"
  using assms
proof (induction bs arbitrary: acc)
  case Nil
  show ?case by (metis prod_cases3 test_loop.simps(1))
next
  case (Cons b bs)
  obtain U I S where acc: "acc = (U, I, S)" by (metis prod_cases3)
  from Cons.prems obtain sc where sc: "batch_scores env model device dv b = Inr sc" by auto
  from Cons.prems have "\<forall>b\<in>set bs. \<exists>ss. batch_scores env model device dv b = Inr ss" by simp
  from Cons.IH[OF this] sc show ?case by (simp add: acc bindS_def batch_scores_def)
qed

text \<open>What \<^verbatim>\<open>test\<close> returns, when it returns.\<close>

lemma test_Inr_D:
  assumes "test env model ratings bsz device dv = Inr predictions"
  shows "\<exists>score_batches.
           list_all2 (\<lambda>b sc. batch_scores env model device dv b = Inr sc)
             (batches (nat bsz) ratings) score_batches \<and>
           predictions = sort_values (unsorted_predictions env ratings (concat score_batches))"
proof -
  from assms have pos: "0 < bsz"
    by (auto simp: test_def DataLoader_def bindS_def split: if_splits)
  then have n: "0 < nat bsz" by simp
  from assms pos obtain U I S where
    loop: "test_loop env model device dv (batches (nat bsz) ratings) ([], [], []) = Inr (U, I, S)"
    and p: "predictions = sort_values (from_records (map wrap32 (concat U))
        (map wrap32 (concat I)) (map (float32 env) (concat S)))"
    by (auto simp: test_def DataLoader_def RecSysDataset_def bindS_def hstack_def
        split: sum.splits if_splits)
  from test_loop_Inr_D[OF loop]
  have U: "U = map (idx_column env user) (batches (nat bsz) ratings)"
    and I: "I = map (idx_column env item) (batches (nat bsz) ratings)"
    and S: "list_all2 (\<lambda>b sc. batch_scores env model device dv b = Inr sc)
        (batches (nat bsz) ratings) S"
    by auto
  have cb: "concat (batches (nat bsz) ratings) = ratings" by (rule concat_batches[OF n])
  have cU: "map wrap32 (concat U) = idx_column env user ratings"
    unfolding U by (simp add: idx_column_concat cb wrap32_idx_column)
  have cI: "map wrap32 (concat I) = idx_column env item ratings"
    unfolding I by (simp add: idx_column_concat cb wrap32_idx_column)
  from S show ?thesis unfolding p cU cI unsorted_predictions_def by blast
qed

lemma test_total:
  assumes "0 < bsz" "ratings \<noteq> []"
    and "\<forall>b\<in>set (batches (nat bsz) ratings). \<exists>ss. batch_scores env model device dv b = Inr ss"
  shows "\<exists>predictions. test env model ratings bsz device dv = Inr predictions"
proof -
  from test_loop_total[OF assms(3), of "([], [], [])"] obtain U I S where
    loop: "test_loop env model device dv (batches (nat bsz) ratings) ([], [], []) = Inr (U, I, S)"
    by (metis prod_cases3)
  from test_loop_Inr_D[OF loop] have
    "length S = length (batches (nat bsz) ratings)"
    and "U = map (idx_column env user) (batches (nat bsz) ratings)"
    and "I = map (idx_column env item) (batches (nat bsz) ratings)"
    by (auto dest: list_all2_lengthD)
  moreover have "batches (nat bsz) ratings \<noteq> []" using assms by (intro batches_nonempty) auto
  ultimately have "U \<noteq> []" "I \<noteq> []" "S \<noteq> []" by auto
  with assms(1) loop show ?thesis
    by (simp add: test_def DataLoader_def RecSysDataset_def bindS_def hstack_def)
qed

text \<open>
  C3.  The claim: for every test rating table the evaluation step produces a predictions
  table sorted by user ascending and, within a user, by score descending, rows with the
  same user and the same score keeping their original order.

  On the empty table \<^verbatim>\<open>test\<close> produces no table: the loop appends nothing and
  \<^verbatim>\<open>torch.hstack\<close> of the empty list raises.
\<close>

theorem test_empty_table_raises:
  "test demo_renv 7 [] 512 ''cpu'' ''0.2'' =
     Inl (Exn RuntimeError ''hstack expects a non-empty TensorList'')"
  by (simp add: test_def DataLoader_def RecSysDataset_def bindS_def hstack_def batches.simps)

text \<open>
  C3, as the code has it.  Take a test rating table that is not empty and whose indices
  fit in 32 bits, a positive batch size, and a network that answers every batch of the
  table with one score per row.  Then \<^verbatim>\<open>test\<close> returns a table with one row per rating
  row: row \<open>n\<close> of the table it sorts is the user and the item of rating row \<open>n\<close> and the
  score the network gave that row, cast, where the scores are the network's answers to
  the batches, in order.  The table returned holds exactly those rows, sorted by user
  ascending and, within a user, by score descending; rows with the same user and the
  same score are in rating-table order.
\<close>

theorem test_predictions_sorted:
  assumes "test_ratings \<noteq> []"
    and "0 < batch_size"
    and "\<forall>r\<in>set test_ratings. fits_int32 (user r) \<and> fits_int32 (item r)"
    and "\<forall>batch\<in>set (batches (nat batch_size) test_ratings). \<exists>ss.
           batch_scores env model device dropout_value batch = Inr ss \<and> length ss = length batch"
  shows "\<exists>predictions score_batches.
           test env model test_ratings batch_size device dropout_value = Inr predictions \<and>
           list_all2 (\<lambda>batch ss. batch_scores env model device dropout_value batch = Inr ss)
             (batches (nat batch_size) test_ratings) score_batches \<and>
           length (concat score_batches) = length test_ratings \<and>
           unsorted_predictions env test_ratings (concat score_batches) =
             map (\<lambda>(r, s). (index_value env (user r), index_value env (item r), float32 env s))
               (zip test_ratings (concat score_batches)) \<and>
           length predictions = length test_ratings \<and>
           mset predictions =
             mset (unsorted_predictions env test_ratings (concat score_batches)) \<and>
           sorted (map user predictions) \<and>
           (\<forall>u. sorted_wrt (\<lambda>a b. score b \<le> score a) (filter (\<lambda>r. user r = u) predictions)) \<and>
           (\<forall>u s. filter (\<lambda>r. user r = u \<and> score r = s) predictions =
                  filter (\<lambda>r. user r = u \<and> score r = s)
                    (unsorted_predictions env test_ratings (concat score_batches)))"
proof -
  let ?bs = "batches (nat batch_size) test_ratings"
  have ok: "\<forall>b\<in>set ?bs. \<exists>ss. batch_scores env model device dropout_value b = Inr ss"
    using assms(4) by blast
  from test_total[OF assms(2) assms(1) ok] obtain predictions
    where t: "test env model test_ratings batch_size device dropout_value = Inr predictions"
    by blast
  from test_Inr_D[OF t] obtain score_batches
    where sb: "list_all2 (\<lambda>b sc. batch_scores env model device dropout_value b = Inr sc)
        ?bs score_batches"
      and p: "predictions =
        sort_values (unsorted_predictions env test_ratings (concat score_batches))"
    by blast
  let ?raw = "unsorted_predictions env test_ratings (concat score_batches)"
  have "list_all2 (\<lambda>b sc. length sc = length b) ?bs score_batches"
    unfolding list_all2_conv_all_nth
  proof (intro conjI allI impI)
    show "length ?bs = length score_batches" using sb by (rule list_all2_lengthD)
  next
    fix n assume n: "n < length ?bs"
    then have "?bs ! n \<in> set ?bs" by (rule nth_mem)
    with assms(4) obtain ss where
      "batch_scores env model device dropout_value (?bs ! n) = Inr ss"
      and l: "length ss = length (?bs ! n)"
      by blast
    moreover from sb n
    have "batch_scores env model device dropout_value (?bs ! n) = Inr (score_batches ! n)"
      by (simp add: list_all2_conv_all_nth)
    ultimately have "score_batches ! n = ss" by simp
    with l show "length (score_batches ! n) = length (?bs ! n)" by simp
  qed
  then have "length (concat score_batches) = length (concat ?bs)"
    by (rule length_concat_scores)
  then have len: "length (concat score_batches) = length test_ratings"
    using assms(2) by (simp add: concat_batches)
  have fu: "\<forall>r\<in>set test_ratings. fits_int32 (user r)"
    and fi: "\<forall>r\<in>set test_ratings. fits_int32 (item r)"
    using assms(3) by blast+
  have raw: "?raw = map (\<lambda>(r, s).
      (index_value env (user r), index_value env (item r), float32 env s))
      (zip test_ratings (concat score_batches))"
    using len
    by (intro nth_equalityI)
      (simp_all add: unsorted_predictions_def from_records_def idx_column_fits[OF fu]
        idx_column_fits[OF fi])
  have m: "mset predictions = mset ?raw"
    unfolding p by (rule mset_sort_values)
  then have "length predictions = length ?raw" by (rule mset_eq_length)
  then have lp: "length predictions = length test_ratings"
    using len by (simp add: raw)
  have su: "sorted (map user predictions)"
    unfolding p by (rule sorted_user[OF sorted_sort_values])
  have sw: "\<forall>u. sorted_wrt (\<lambda>a b. score b \<le> score a) (filter (\<lambda>r. user r = u) predictions)"
    unfolding p by (simp add: sorted_within_user[OF sorted_sort_values])
  have st: "\<forall>u s. filter (\<lambda>r. user r = u \<and> score r = s) predictions =
      filter (\<lambda>r. user r = u \<and> score r = s) ?raw"
    unfolding p by (simp add: stable_sort_values)
  from t sb len raw lp m su sw st show ?thesis by blast
qed

lemma demo_batches:
  "batches 2 demo_test_ratings =
     [[(Some 1, Some 0, 1), (Some 0, Some 2, 0)], [(Some 1, Some 1, 1), (Some 0, Some 1, 1)],
      [(Some 1, Some 2, 0), (Some 1, Some 3, 1)]]"
  by (simp add: demo_test_ratings_def batches.simps)

theorem test_predictions_sorted_witness:
  "demo_test_ratings \<noteq> [] \<and> (0::int) < 2 \<and>
   list_all (\<lambda>r. fits_int32 (user r) \<and> fits_int32 (item r)) demo_test_ratings \<and>
   map (batch_scores demo_renv 7 ''cpu'' ''0.2'') (batches 2 demo_test_ratings) =
     [Inr [1, 1], Inr [0, 2], Inr [2, 1]] \<and>
   test demo_renv 7 demo_test_ratings 2 ''cpu'' ''0.2'' =
     Inr [(0, 1, 2), (0, 2, 1), (1, 2, 2), (1, 0, 1), (1, 3, 1), (1, 1, 0)] \<and>
   (\<exists>predictions score_batches.
      test demo_renv 7 demo_test_ratings 2 ''cpu'' ''0.2'' = Inr predictions \<and>
      list_all2 (\<lambda>batch ss. batch_scores demo_renv 7 ''cpu'' ''0.2'' batch = Inr ss)
        (batches (nat 2) demo_test_ratings) score_batches \<and>
      length (concat score_batches) = length demo_test_ratings \<and>
      unsorted_predictions demo_renv demo_test_ratings (concat score_batches) =
        map (\<lambda>(r, s). (index_value demo_renv (user r), index_value demo_renv (item r),
                         float32 demo_renv s))
          (zip demo_test_ratings (concat score_batches)) \<and>
      length predictions = length demo_test_ratings \<and>
      mset predictions =
        mset (unsorted_predictions demo_renv demo_test_ratings (concat score_batches)) \<and>
      sorted (map user predictions) \<and>
      (\<forall>u. sorted_wrt (\<lambda>a b. score b \<le> score a) (filter (\<lambda>r. user r = u) predictions)) \<and>
      (\<forall>u s. filter (\<lambda>r. user r = u \<and> score r = s) predictions =
             filter (\<lambda>r. user r = u \<and> score r = s)
               (unsorted_predictions demo_renv demo_test_ratings (concat score_batches))))"
proof -
  have h1: "demo_test_ratings \<noteq> []" by (simp add: demo_test_ratings_def)
  have h2: "(0::int) < 2" by simp
  have h3: "\<forall>r\<in>set demo_test_ratings. fits_int32 (user r) \<and> fits_int32 (item r)"
    by (simp add: demo_test_ratings_def fits_int32_def user_def item_def)
  have sc: "map (batch_scores demo_renv 7 ''cpu'' ''0.2'') (batches 2 demo_test_ratings) =
      [Inr [1, 1], Inr [0, 2], Inr [2, 1]]"
    by (simp add: demo_batches batch_scores_def idx_column_def wrap32_def demo_renv_def
        demo_forward_def user_def item_def)
  have h4: "\<forall>batch\<in>set (batches (nat 2) demo_test_ratings). \<exists>ss.
      batch_scores demo_renv 7 ''cpu'' ''0.2'' batch = Inr ss \<and> length ss = length batch"
    by (simp add: demo_batches batch_scores_def idx_column_def demo_renv_def demo_forward_def)
  have ev: "test demo_renv 7 demo_test_ratings 2 ''cpu'' ''0.2'' =
      Inr [(0, 1, 2), (0, 2, 1), (1, 2, 2), (1, 0, 1), (1, 3, 1), (1, 1, 0)]"
    by (simp add: test_def DataLoader_def RecSysDataset_def bindS_def hstack_def demo_batches
        idx_column_def wrap32_def demo_renv_def demo_forward_def user_def item_def score_def
        from_records_def sort_values_def row_le_def Let_def)
  from test_predictions_sorted[OF h1 h2 h3 h4] h1 h3 sc ev
  show ?thesis by (simp add: list_all_iff)
qed

section \<open>Top-K per user\<close>

lemma head_rows_filter:
  "filter (\<lambda>r. user r = u) (head_rows n seen rows) =
   take (n - seen u) (filter (\<lambda>r. user r = u) rows)"
proof (induction rows arbitrary: seen)
  case Nil
  show ?case by simp
next
  case (Cons r rows)
  show ?case by (auto simp: Cons.IH take_Cons' simp del: fun_upd_apply) simp_all
qed

lemma groupby_user_head_filter:
  "filter (\<lambda>r. user r = u) (groupby_user_head n rows) = take n (filter (\<lambda>r. user r = u) rows)"
  by (simp add: groupby_user_head_def head_rows_filter)

text \<open>
  Taking the first \<open>n\<close> per user of the first \<open>m\<close> per user, \<open>n \<le> m\<close>: the inner pass
  has kept \<open>min (seen u) m\<close> rows of a user when the outer one meets the next.
\<close>

lemma head_rows_head_rows:
  "n \<le> m \<Longrightarrow> head_rows n (\<lambda>u. min (seen u) m) (head_rows m seen rows) = head_rows n seen rows"
proof (induction rows arbitrary: seen)
  case Nil
  show ?case by simp
next
  case (Cons r rows)
  let ?seen' = "seen(user r := seen (user r) + 1)"
  have upd: "(\<lambda>u. min (seen u) m)(user r := min (seen (user r)) m + 1) = (\<lambda>u. min (?seen' u) m)"
    if "seen (user r) < m"
    using that by (auto simp: fun_eq_iff)
  have same: "(\<lambda>u. min (seen u) m) = (\<lambda>u. min (?seen' u) m)" if "\<not> seen (user r) < m"
    using that by (auto simp: fun_eq_iff)
  show ?case
  proof (cases "seen (user r) < m")
    case True
    with Cons.prems Cons.IH[OF Cons.prems, of ?seen'] upd show ?thesis
      by (auto simp del: fun_upd_apply)
  next
    case False
    with Cons.prems Cons.IH[OF Cons.prems, of ?seen'] same show ?thesis
      by (auto simp del: fun_upd_apply)
  qed
qed

lemma groupby_user_head_twice:
  "n \<le> m \<Longrightarrow> groupby_user_head n (groupby_user_head m rows) = groupby_user_head n rows"
  using head_rows_head_rows[of n m "\<lambda>_. 0" rows] by (simp add: groupby_user_head_def)

subsection \<open>Mapping the indices back\<close>

lemma map_exn_Inr_D: "map_exn f xs = Inr ys \<Longrightarrow> list_all2 (\<lambda>x y. f x = Inr y) xs ys"
  by (induction xs arbitrary: ys) (auto simp: bindS_def split: sum.splits)

lemma map_exn_Inr_I: "list_all2 (\<lambda>x y. f x = Inr y) xs ys \<Longrightarrow> map_exn f xs = Inr ys"
  by (induction xs ys rule: list_all2_induct) (auto simp: bindS_def)

lemma list_getitem_eq:
  "list_getitem xs i =
     (if in_range xs i then Inr (py_nth xs i)
      else Inl (Exn IndexError ''list index out of range''))"
  by (auto simp: list_getitem_def in_range_def py_nth_def)

lemma item_set_user:
  "length col = length rows \<Longrightarrow> map item (set_user col rows) = map item rows"
  by (induction col rows rule: list_induct2) (auto simp: set_user_def item_def)

lemma list_all2_fun:
  "list_all2 (\<lambda>p q. P p \<and> q = f p) ps qs \<longleftrightarrow> (\<forall>p\<in>set ps. P p) \<and> qs = map f ps"
proof (induction ps arbitrary: qs)
  case Nil
  show ?case by auto
next
  case (Cons p ps)
  show ?case by (cases qs) (auto simp: Cons.IH)
qed

lemma remap_predictions_Inr_D:
  assumes "remap_predictions m ps = Inr qs"
  shows "(\<forall>p\<in>set ps. in_range m (user p) \<and> in_range m (item p)) \<and> qs = map (back_row m) ps"
proof -
  from assms obtain us "is" where us: "map_exn (list_getitem m) (map user ps) = Inr us"
    and "is": "map_exn (list_getitem m) (map item (set_user us ps)) = Inr is"
    and qs: "qs = set_item is (set_user us ps)"
    by (auto simp: remap_predictions_def bindS_def Let_def split: sum.splits)
  from us have lu: "list_all2 (\<lambda>x y. list_getitem m x = Inr y) (map user ps) us"
    by (rule map_exn_Inr_D)
  then have len_us: "length us = length ps" by (auto dest: list_all2_lengthD)
  from "is" have li: "list_all2 (\<lambda>x y. list_getitem m x = Inr y) (map item ps) is"
    using map_exn_Inr_D item_set_user[OF len_us] by metis
  then have len_is: "length is = length ps" by (auto dest: list_all2_lengthD)
  have "list_all2 (\<lambda>p q. (in_range m (user p) \<and> in_range m (item p)) \<and> q = back_row m p) ps qs"
    unfolding list_all2_conv_all_nth
  proof (intro conjI allI impI)
    show "length ps = length qs" using len_us len_is by (simp add: qs set_item_def set_user_def)
  next
    fix i assume i: "i < length ps"
    have u: "list_getitem m (user (ps ! i)) = Inr (us ! i)"
      using lu i by (auto simp: list_all2_conv_all_nth)
    have t: "list_getitem m (item (ps ! i)) = Inr (is ! i)"
      using li i by (auto simp: list_all2_conv_all_nth)
    have q: "qs ! i = (us ! i, is ! i, score (ps ! i))"
      using i len_us len_is by (simp add: qs set_item_def set_user_def user_def item_def score_def)
    from u show "in_range m (user (ps ! i))" by (simp add: list_getitem_eq split: if_splits)
    from t show "in_range m (item (ps ! i))" by (simp add: list_getitem_eq split: if_splits)
    from u t q show "qs ! i = back_row m (ps ! i)"
      by (simp add: list_getitem_eq back_row_def split: if_splits)
  qed
  then show ?thesis unfolding list_all2_fun by blast
qed

lemma remap_predictions_Inr_I:
  assumes "\<forall>p\<in>set ps. in_range m (user p) \<and> in_range m (item p)"
  shows "remap_predictions m ps = Inr (map (back_row m) ps)"
proof -
  have u: "map_exn (list_getitem m) (map user ps) = Inr (map (py_nth m \<circ> user) ps)"
    using assms by (intro map_exn_Inr_I) (simp add: list_all2_conv_all_nth list_getitem_eq)
  have l: "length (map (py_nth m \<circ> user) ps) = length ps" by simp
  have i: "map_exn (list_getitem m) (map item (set_user (map (py_nth m \<circ> user) ps) ps)) =
      Inr (map (py_nth m \<circ> item) ps)"
    unfolding item_set_user[OF l]
    using assms by (intro map_exn_Inr_I) (simp add: list_all2_conv_all_nth list_getitem_eq)
  have "set_item (map (py_nth m \<circ> item) ps) (set_user (map (py_nth m \<circ> user) ps) ps) =
      map (back_row m) ps"
    by (rule nth_equalityI)
      (simp_all add: set_item_def set_user_def back_row_def user_def item_def score_def)
  then show ?thesis by (simp add: remap_predictions_def u i bindS_def)
qed

lemma user_back_row: "user (back_row m p) = py_nth m (user p)"
  by (simp add: back_row_def user_def)

lemma score_back_row: "score (back_row m p) = score p"
  by (simp add: back_row_def score_def)

lemma py_nth_inj:
  assumes "distinct m" "0 \<le> i" "in_range m i" "0 \<le> j" "in_range m j"
  shows "py_nth m i = py_nth m j \<longleftrightarrow> i = j"
  using assms by (auto simp: py_nth_def in_range_def nth_eq_iff_index_eq)

lemma sorted_within_user_back:
  assumes "sorted_wrt row_le xs" "distinct m" "\<forall>p\<in>set xs. 0 \<le> user p \<and> in_range m (user p)"
  shows "sorted_wrt (\<lambda>a b. score b \<le> score a)
           (filter (\<lambda>r. user r = u) (map (back_row m) xs))"
  using assms
proof (induction xs)
  case Nil
  show ?case by simp
next
  case (Cons x xs)
  have "score (back_row m p) \<le> score (back_row m x)"
    if "p \<in> set xs" "user (back_row m p) = user (back_row m x)" for p
  proof -
    from that Cons.prems have "user p = user x" by (simp add: py_nth_inj user_back_row)
    moreover from that Cons.prems have "row_le x p" by simp
    ultimately show ?thesis by (simp add: row_le_def score_back_row)
  qed
  with Cons show ?case by auto
qed

lemma stable_back:
  assumes "distinct m" "\<forall>p\<in>set raw. 0 \<le> user p \<and> in_range m (user p)"
  shows "filter (\<lambda>r. user r = u \<and> score r = s) (map (back_row m) (sort_values raw)) =
         filter (\<lambda>r. user r = u \<and> score r = s) (map (back_row m) raw)"
proof (cases "\<exists>p\<in>set raw. py_nth m (user p) = u")
  case True
  then obtain p0 where p0: "p0 \<in> set raw" "py_nth m (user p0) = u" by blast
  have eq: "(py_nth m (user p) = u \<and> score p = s) \<longleftrightarrow> (user p = user p0 \<and> score p = s)"
    if "p \<in> set raw" for p
    using that p0 assms by (metis py_nth_inj)
  have "filter (\<lambda>p. py_nth m (user p) = u \<and> score p = s) (sort_values raw) =
      filter (\<lambda>p. user p = user p0 \<and> score p = s) (sort_values raw)"
    by (rule filter_cong) (simp_all add: set_sort_values eq)
  also have "\<dots> = filter (\<lambda>p. user p = user p0 \<and> score p = s) raw"
    by (rule stable_sort_values)
  also have "\<dots> = filter (\<lambda>p. py_nth m (user p) = u \<and> score p = s) raw"
    by (rule filter_cong) (simp_all add: eq)
  finally show ?thesis by (simp add: filter_map comp_def user_back_row score_back_row)
next
  case False
  then have "filter (\<lambda>p. py_nth m (user p) = u \<and> score p = s) (sort_values raw) = []"
    and "filter (\<lambda>p. py_nth m (user p) = u \<and> score p = s) raw = []"
    by (auto simp: filter_empty_conv set_sort_values)
  then show ?thesis by (simp add: filter_map comp_def user_back_row score_back_row)
qed

text \<open>
  C4.  From any predictions, sorted by \<^verbatim>\<open>test\<close> and mapped back through a list of
  distinct identifiers (the indices being positions, not negative), the first \<open>k\<close> rows
  per user (\<open>k\<close> is 5 and 10 in the script) are the \<open>k\<close> highest-scored rows of that user:
  the rows of a user are in descending order of score, equal scores in the order the
  predictions were built in, and the output has the first \<open>k\<close> of them, all of them if
  there are fewer; every row left out scores no higher than any row kept.
\<close>

theorem top_k_per_user:
  assumes "remap_predictions mapping (sort_values raw) = Inr predictions"
    and "distinct mapping"
    and "\<forall>r\<in>set raw. 0 \<le> user r"
  shows "\<exists>unsorted. remap_predictions mapping raw = Inr unsorted \<and>
           mset predictions = mset unsorted \<and>
           (\<forall>u. filter (\<lambda>r. user r = u) (groupby_user_head k predictions) =
                  take k (filter (\<lambda>r. user r = u) predictions) \<and>
                length (filter (\<lambda>r. user r = u) (groupby_user_head k predictions)) =
                  min k (length (filter (\<lambda>r. user r = u) unsorted)) \<and>
                sorted_wrt (\<lambda>a b. score b \<le> score a) (filter (\<lambda>r. user r = u) predictions) \<and>
                (\<forall>a\<in>set (take k (filter (\<lambda>r. user r = u) predictions)).
                 \<forall>b\<in>set (drop k (filter (\<lambda>r. user r = u) predictions)). score b \<le> score a) \<and>
                (\<forall>s. filter (\<lambda>r. user r = u \<and> score r = s) predictions =
                      filter (\<lambda>r. user r = u \<and> score r = s) unsorted))"
proof -
  from remap_predictions_Inr_D[OF assms(1)]
  have ok: "\<forall>p\<in>set raw. in_range mapping (user p) \<and> in_range mapping (item p)"
    and p: "predictions = map (back_row mapping) (sort_values raw)"
    by (simp_all add: set_sort_values)
  let ?unsorted = "map (back_row mapping) raw"
  have r: "remap_predictions mapping raw = Inr ?unsorted"
    by (rule remap_predictions_Inr_I[OF ok])
  have m: "mset predictions = mset ?unsorted"
    unfolding p by (simp add: mset_sort_values)
  have users: "\<forall>p\<in>set raw. 0 \<le> user p \<and> in_range mapping (user p)"
    using ok assms(3) by blast
  have users': "\<forall>p\<in>set (sort_values raw). 0 \<le> user p \<and> in_range mapping (user p)"
    using users by (simp add: set_sort_values)
  have per_user: "filter (\<lambda>r. user r = u) (groupby_user_head k predictions) =
        take k (filter (\<lambda>r. user r = u) predictions) \<and>
      length (filter (\<lambda>r. user r = u) (groupby_user_head k predictions)) =
        min k (length (filter (\<lambda>r. user r = u) ?unsorted)) \<and>
      sorted_wrt (\<lambda>a b. score b \<le> score a) (filter (\<lambda>r. user r = u) predictions) \<and>
      (\<forall>a\<in>set (take k (filter (\<lambda>r. user r = u) predictions)).
       \<forall>b\<in>set (drop k (filter (\<lambda>r. user r = u) predictions)). score b \<le> score a) \<and>
      (\<forall>s. filter (\<lambda>r. user r = u \<and> score r = s) predictions =
            filter (\<lambda>r. user r = u \<and> score r = s) ?unsorted)" for u
  proof -
    let ?mine = "filter (\<lambda>r. user r = u) predictions"
    have top: "filter (\<lambda>r. user r = u) (groupby_user_head k predictions) = take k ?mine"
      by (rule groupby_user_head_filter)
    have "mset ?mine = mset (filter (\<lambda>r. user r = u) ?unsorted)"
      using m by (simp only: mset_filter)
    then have len: "length ?mine = length (filter (\<lambda>r. user r = u) ?unsorted)"
      by (rule mset_eq_length)
    have srt: "sorted_wrt (\<lambda>a b. score b \<le> score a) ?mine"
      unfolding p by (rule sorted_within_user_back[OF sorted_sort_values assms(2) users'])
    have "sorted_wrt (\<lambda>a b. score b \<le> score a) (take k ?mine @ drop k ?mine)"
      using srt by simp
    then have cut: "\<forall>a\<in>set (take k ?mine). \<forall>b\<in>set (drop k ?mine). score b \<le> score a"
      unfolding sorted_wrt_append by blast
    have stab: "\<forall>s. filter (\<lambda>r. user r = u \<and> score r = s) predictions =
        filter (\<lambda>r. user r = u \<and> score r = s) ?unsorted"
      unfolding p using stable_back[OF assms(2) users] by blast
    from top len srt cut stab show ?thesis by (simp add: min.commute)
  qed
  from r m per_user show ?thesis by blast
qed

lemma demo_sort_values:
  "sort_values demo_raw =
     [(0, 2, 1), (1, 1, 9), (1, 0, 9), (1, 2, 7), (1, 1, 4), (1, 0, 3), (1, 2, 1)]"
  by (simp add: demo_raw_def sort_values_def row_le_def user_def score_def)

lemma demo_remap:
  "remap_predictions demo_mapping (sort_values demo_raw) = Inr demo_predictions"
  by (simp add: demo_sort_values demo_mapping_def demo_predictions_def remap_predictions_def
      bindS_def list_getitem_def set_user_def set_item_def user_def item_def score_def)

theorem top_k_per_user_witness:
  "remap_predictions demo_mapping (sort_values demo_raw) = Inr demo_predictions \<and>
   distinct demo_mapping \<and>
   list_all (\<lambda>r. 0 \<le> user r) demo_raw \<and>
   groupby_user_head 5 demo_predictions =
     [(10, 30, 1), (20, 20, 9), (20, 10, 9), (20, 30, 7), (20, 20, 4), (20, 10, 3)] \<and>
   (\<exists>unsorted. remap_predictions demo_mapping demo_raw = Inr unsorted \<and>
      mset demo_predictions = mset unsorted \<and>
      (\<forall>u. filter (\<lambda>r. user r = u) (groupby_user_head 5 demo_predictions) =
             take 5 (filter (\<lambda>r. user r = u) demo_predictions) \<and>
           length (filter (\<lambda>r. user r = u) (groupby_user_head 5 demo_predictions)) =
             min 5 (length (filter (\<lambda>r. user r = u) unsorted)) \<and>
           sorted_wrt (\<lambda>a b. score b \<le> score a) (filter (\<lambda>r. user r = u) demo_predictions) \<and>
           (\<forall>a\<in>set (take 5 (filter (\<lambda>r. user r = u) demo_predictions)).
            \<forall>b\<in>set (drop 5 (filter (\<lambda>r. user r = u) demo_predictions)). score b \<le> score a) \<and>
           (\<forall>s. filter (\<lambda>r. user r = u \<and> score r = s) demo_predictions =
                 filter (\<lambda>r. user r = u \<and> score r = s) unsorted)))"
proof -
  have h2: "distinct demo_mapping" by (simp add: demo_mapping_def)
  have h3: "\<forall>r\<in>set demo_raw. 0 \<le> user r" by (simp add: demo_raw_def user_def)
  have hd: "groupby_user_head 5 demo_predictions =
      [(10, 30, 1), (20, 20, 9), (20, 10, 9), (20, 30, 7), (20, 20, 4), (20, 10, 3)]"
    by (simp add: groupby_user_head_def demo_predictions_def user_def)
  from top_k_per_user[OF demo_remap h2 h3, of 5] demo_remap h2 h3 hd
  show ?thesis by (simp add: list_all_iff)
qed

subsection \<open>The two files of a configuration\<close>

lemma rwrite_Inr_D:
  "rwrite p c st = (Inr u, st') \<Longrightarrow> st' = st\<lparr>rfs := (rfs st)(p \<mapsto> c)\<rparr>"
  by (auto simp: rwrite_def split: if_splits)

lemma evaluate_Inr_D:
  assumes "evaluate env test_ratings source_feats f5 f10 bsz device dv model st = (Inr u, st')"
  shows "\<exists>ranked predictions.
           test env model test_ratings bsz device dv = Inr ranked \<and>
           remap_predictions (list_mapping source_feats) ranked = Inr predictions \<and>
           rfs st' = (rfs st)(f5 \<mapsto> Table (groupby_user_head 5 predictions),
                              f10 \<mapsto> Table (groupby_user_head 10 predictions)) \<and>
           calls st' = calls st @ [Test]"
proof -
  from assms obtain ranked st1 where
    t: "call_test env model test_ratings bsz device dv st = (Inr ranked, st1)"
    and rest1: "bindE (lift (remap_predictions (list_mapping source_feats) ranked))
       (\<lambda>predictions.
          let top5 = groupby_user_head 5 predictions;
              top10 = groupby_user_head 10 predictions in
          bindE (rwrite f5 (Table top5)) (\<lambda>_. rwrite f10 (Table top10))) st1 = (Inr u, st')"
    unfolding evaluate_def bindE_Inr_iff by blast
  from rest1 obtain predictions st2 where
    rm: "lift (remap_predictions (list_mapping source_feats) ranked) st1 = (Inr predictions, st2)"
    and rest2: "bindE (rwrite f5 (Table (groupby_user_head 5 predictions)))
       (\<lambda>_. rwrite f10 (Table (groupby_user_head 10 predictions))) st2 = (Inr u, st')"
    unfolding bindE_Inr_iff Let_def by blast
  from rest2 obtain v st3 where
    w5: "rwrite f5 (Table (groupby_user_head 5 predictions)) st2 = (Inr v, st3)"
    and w10: "rwrite f10 (Table (groupby_user_head 10 predictions)) st3 = (Inr u, st')"
    unfolding bindE_Inr_iff by blast
  from t have t1: "test env model test_ratings bsz device dv = Inr ranked"
    and st1: "st1 = st\<lparr>calls := calls st @ [Test]\<rparr>"
    by (simp_all add: call_test_def)
  from rm have rm1: "remap_predictions (list_mapping source_feats) ranked = Inr predictions"
    and st2: "st2 = st1" by (simp_all add: lift_def)
  from rwrite_Inr_D[OF w5] rwrite_Inr_D[OF w10] st1 st2
  have "rfs st' = (rfs st)(f5 \<mapsto> Table (groupby_user_head 5 predictions),
                           f10 \<mapsto> Table (groupby_user_head 10 predictions))"
    and "calls st' = calls st @ [Test]" by simp_all
  with t1 rm1 show ?thesis by blast
qed

text \<open>
  C10.  When the evaluation of a configuration ends normally, the two files it wrote (two
  different paths) hold tables of which the top-5 one is, user by user, the first five
  rows of the user's rows in the top-10 one, in the same order; it is what taking the
  first five per user of the top-10 table gives.
\<close>

theorem top5_is_prefix_of_top10:
  assumes "evaluate env test_ratings source_feats f5 f10 bsz device dv model st = (Inr (), st')"
    and "f5 \<noteq> f10"
  shows "\<exists>top5 top10. rfs st' f5 = Some (Table top5) \<and> rfs st' f10 = Some (Table top10) \<and>
           (\<forall>u. filter (\<lambda>r. user r = u) top5 = take 5 (filter (\<lambda>r. user r = u) top10)) \<and>
           top5 = groupby_user_head 5 top10"
proof -
  from evaluate_Inr_D[OF assms(1)] obtain predictions where
    fs: "rfs st' = (rfs st)(f5 \<mapsto> Table (groupby_user_head 5 predictions),
                            f10 \<mapsto> Table (groupby_user_head 10 predictions))"
    by blast
  let ?top5 = "groupby_user_head 5 predictions"
  let ?top10 = "groupby_user_head 10 predictions"
  have "rfs st' f5 = Some (Table ?top5)" "rfs st' f10 = Some (Table ?top10)"
    using assms(2) by (simp_all add: fs)
  moreover have "filter (\<lambda>r. user r = u) ?top5 = take 5 (filter (\<lambda>r. user r = u) ?top10)" for u
    by (simp add: groupby_user_head_filter)
  moreover have "?top5 = groupby_user_head 5 ?top10"
    by (simp add: groupby_user_head_twice)
  ultimately show ?thesis by blast
qed

section \<open>One configuration of the recommender driver\<close>

subsection \<open>Paths\<close>

lemma preds_folder_value: "preds_folder = ''reports/dbbook/predictions/uni/''"
  by (simp add: preds_folder_def feature_list_def setting_sources_def)

lemma model_folder_value: "model_folder = ''reports/dbbok/models/uni/''"
  by (simp add: model_folder_def feature_list_def setting_sources_def)

lemma strip_slash_folders:
  "strip_slash preds_folder = ''reports/dbbook/predictions/uni''"
  "strip_slash model_folder = ''reports/dbbok/models/uni''"
  by (simp_all add: strip_slash_def preds_folder_value model_folder_value)

lemma dirname_in_folder:
  assumes "CHR ''/'' \<notin> set name"
  shows "dirname (folder @ CHR ''/'' # name) = folder"
proof -
  have "dropWhile (\<lambda>c. c \<noteq> CHR ''/'') (rev name @ CHR ''/'' # rev folder) = CHR ''/'' # rev folder"
    using assms by (simp add: dropWhile_append)
  then show ?thesis by (simp add: dirname_def)
qed

lemma dirname_paths:
  assumes "CHR ''/'' \<notin> set name"
  shows "dirname (model_name name) = strip_slash model_folder"
    and "dirname (preds_file_t5 name) = strip_slash preds_folder"
    and "dirname (preds_file_t10 name) = strip_slash preds_folder"
proof -
  have "dirname (''reports/dbbok/models/uni'' @ CHR ''/'' # (name @ ''.pth'')) =
      ''reports/dbbok/models/uni''"
    using assms by (intro dirname_in_folder) simp
  then show "dirname (model_name name) = strip_slash model_folder"
    by (simp add: model_name_def model_folder_value strip_slash_def)
  have "dirname (''reports/dbbook/predictions/uni'' @ CHR ''/'' # (''top5_'' @ name @ ''.tsv'')) =
      ''reports/dbbook/predictions/uni''"
    using assms by (intro dirname_in_folder) simp
  then show "dirname (preds_file_t5 name) = strip_slash preds_folder"
    by (simp add: preds_file_t5_def preds_folder_value strip_slash_def)
  have "dirname (''reports/dbbook/predictions/uni'' @ CHR ''/'' # (''top10_'' @ name @ ''.tsv'')) =
      ''reports/dbbook/predictions/uni''"
    using assms by (intro dirname_in_folder) simp
  then show "dirname (preds_file_t10 name) = strip_slash preds_folder"
    by (simp add: preds_file_t10_def preds_folder_value strip_slash_def)
qed

lemma paths_differ:
  "model_name name \<noteq> strip_slash preds_folder"
  "model_name name \<noteq> strip_slash model_folder"
  "preds_file_t5 name \<noteq> strip_slash preds_folder"
  "preds_file_t5 name \<noteq> strip_slash model_folder"
  "preds_file_t10 name \<noteq> strip_slash preds_folder"
  "preds_file_t10 name \<noteq> strip_slash model_folder"
  "preds_file_t5 name \<noteq> model_name name'"
  "preds_file_t10 name \<noteq> model_name name'"
  "preds_file_t5 name \<noteq> preds_file_t10 name'"
  by (simp_all add: model_name_def preds_file_t5_def preds_file_t10_def preds_folder_value
      model_folder_value strip_slash_def)

lemma join_single: "join sep [x] = x"
  by simp

lemma setting_names_no_slash: "name \<in> set setting_names \<Longrightarrow> CHR ''/'' \<notin> set name"
  by (auto simp: setting_names_def feature_list_def dropout_values_def setting_sources_def
      RecSys_models_def)

lemma length_setting_names: "length setting_names = length feature_list"
  by (simp add: setting_names_def)

subsection \<open>The body of the loop, unfolded\<close>

lemma makedirs_ok:
  assumes "dir_or_absent st (strip_slash p)"
  shows "makedirs p st = (Inr (), st\<lparr>rfs := (rfs st)(strip_slash p \<mapsto> RDir)\<rparr>)"
proof (cases "rfs st (strip_slash p)")
  case None
  then show ?thesis by (simp add: makedirs_def)
next
  case (Some c)
  with assms have c: "rfs st (strip_slash p) = Some RDir" by (simp add: dir_or_absent_def)
  then have "(rfs st)(strip_slash p \<mapsto> RDir) = rfs st" by (rule fun_upd_idem)
  with c show ?thesis by (simp add: makedirs_def)
qed

text \<open>The state after the two \<^verbatim>\<open>os.makedirs\<close> of lines 255 and 256.\<close>

lemma run_config_unfold:
  assumes feats: "map_exn (\<lambda>model. dict_getitem tensors_dict (PStr model)) config = Inr features"
    and idx: "i < length setting_names"
    and d1: "dir_or_absent st (strip_slash preds_folder)"
    and d2: "dir_or_absent st (strip_slash model_folder)"
  shows "run_config force env train_ratings test_ratings tensors_dict source_feats (i, config) st =
    (let name = setting_names ! i;
         st_d = st\<lparr>rfs := (rfs st)(strip_slash preds_folder \<mapsto> RDir,
                                       strip_slash model_folder \<mapsto> RDir)\<rparr>
     in if rexists st (model_name name) \<and> \<not> force
        then (if rexists st (preds_file_t5 name) then (Inr (), st_d)
              else bindE (torch_load (model_name name))
                     (evaluate env test_ratings source_feats (preds_file_t5 name)
                        (preds_file_t10 name) 512 (device_of env) ''0.2'') st_d)
        else bindE
               (bindE (call_train env train_ratings 512 30 (device_of env) ''RecSysNetworkBasic''
                         features ''0.2'') (\<lambda>trained_model.
                bindE (rwrite (model_name name) (ModelFile trained_model))
                  (\<lambda>_. ret trained_model)))
               (evaluate env test_ratings source_feats (preds_file_t5 name)
                  (preds_file_t10 name) 512 (device_of env) ''0.2'') st_d)"
proof -
  let ?st1 = "st\<lparr>rfs := (rfs st)(strip_slash preds_folder \<mapsto> RDir)\<rparr>"
  have m1: "makedirs preds_folder st = (Inr (), ?st1)" by (rule makedirs_ok[OF d1])
  have "dir_or_absent ?st1 (strip_slash model_folder)"
    using d2 by (simp add: dir_or_absent_def strip_slash_folders)
  from makedirs_ok[OF this]
  have m2: "makedirs model_folder ?st1 =
      (Inr (), st\<lparr>rfs := (rfs st)(strip_slash preds_folder \<mapsto> RDir,
                                    strip_slash model_folder \<mapsto> RDir)\<rparr>)"
    by simp
  have g: "list_getitem setting_names (int i) = Inr (setting_names ! i)"
    using idx by (simp add: list_getitem_def)
  show ?thesis
    by (simp add: run_config_def bindE_def lift_def feats g m1 m2 Let_def rexists_def
        paths_differ RecSys_models_def dropout_values_def)
qed

lemma evaluate_calls:
  "calls (snd (evaluate env test_ratings source_feats f5 f10 bsz device dv model st)) =
     calls st @ [Test]"
  by (auto simp: evaluate_def bindE_def call_test_def lift_def rwrite_def Let_def
      split: sum.splits prod.splits)

lemma evaluate_Inr_I:
  assumes "test env model test_ratings bsz device dv = Inr ranked"
    and "remap_predictions (list_mapping source_feats) ranked = Inr predictions"
    and "rfs st (dirname f5) = Some RDir" "rfs st f5 \<noteq> Some RDir"
    and "rfs st (dirname f10) = Some RDir" "rfs st f10 \<noteq> Some RDir"
    and "f5 \<noteq> f10" "dirname f10 \<noteq> f5"
  shows "evaluate env test_ratings source_feats f5 f10 bsz device dv model st =
     (Inr (), st\<lparr>calls := calls st @ [Test],
                 rfs := (rfs st)(f5 \<mapsto> Table (groupby_user_head 5 predictions),
                                 f10 \<mapsto> Table (groupby_user_head 10 predictions))\<rparr>)"
  using assms
  by (simp add: evaluate_def bindE_def call_test_def lift_def rwrite_def Let_def)

lemma evaluate_test_raises:
  assumes "test env model test_ratings bsz device dv = Inl e"
  shows "evaluate env test_ratings source_feats f5 f10 bsz device dv model st =
     (Inl e, st\<lparr>calls := calls st @ [Test]\<rparr>)"
  using assms by (simp add: evaluate_def bindE_def call_test_def)

subsection \<open>The concrete inputs, evaluated\<close>

lemma demo_source_features:
  "source_features demo_emb = [(10, 0), (20, 1), (30, 2), (40, 3)]"
  by (simp add: source_features_def demo_emb_def dict_of_def)

lemma demo_test_value:
  "test demo_renv 7 demo_test_ratings 512 ''cpu'' ''0.2'' =
     Inr [(0, 1, 2), (0, 2, 1), (1, 2, 2), (1, 0, 1), (1, 3, 1), (1, 1, 0)]"
  by (simp add: test_def DataLoader_def RecSysDataset_def bindS_def hstack_def batches.simps
      demo_test_ratings_def idx_column_def wrap32_def demo_renv_def demo_forward_def user_def
      item_def score_def from_records_def sort_values_def row_le_def Let_def)

lemma demo_remap_value:
  "remap_predictions (list_mapping (source_features demo_emb))
      [(0, 1, 2), (0, 2, 1), (1, 2, 2), (1, 0, 1), (1, 3, 1), (1, 1, 0)] =
     Inr [(10, 20, 2), (10, 30, 1), (20, 30, 2), (20, 10, 1), (20, 40, 1), (20, 20, 0::int)]"
  by (simp add: demo_source_features list_mapping_def remap_predictions_def bindS_def
      list_getitem_def set_user_def set_item_def user_def item_def score_def)

lemma setting_names_first:
  "setting_names ! 0 = ''drop0.2_uni_RecSysNetworkBasic_dbbook_s=1_CompGCN_k=64_l=1''"
  by (simp add: setting_names_def feature_list_def dropout_values_def setting_sources_def
      RecSys_models_def)

lemma setting_names_nonempty: "0 < length setting_names"
  by (simp add: setting_names_def feature_list_def)

lemma demo_features:
  "map_exn (\<lambda>model. dict_getitem demo_tensors_dict (PStr model)) [''dbbook_s=1_CompGCN_k=64_l=1''] =
     Inr [0]"
  by (simp add: demo_tensors_dict_def dict_getitem_def bindS_def)

lemma demo_dirs:
  "rfs demo_rstate (strip_slash preds_folder) = Some RDir"
  "rfs demo_rstate (strip_slash model_folder) = Some RDir"
  by (simp_all add: demo_rstate_def strip_slash_folders)

lemma demo_rstate_files:
  "rfs demo_rstate (model_name name) = None"
  "rfs demo_rstate (preds_file_t5 name) = None"
  "rfs demo_rstate (preds_file_t10 name) = None"
  using paths_differ[of name] by (simp_all add: demo_rstate_def strip_slash_folders)

theorem top5_is_prefix_of_top10_witness:
  "fst (evaluate demo_renv demo_test_ratings (source_features demo_emb)
          (preds_file_t5 (setting_names ! 0)) (preds_file_t10 (setting_names ! 0))
          512 ''cpu'' ''0.2'' 7 demo_rstate) = Inr () \<and>
   preds_file_t5 (setting_names ! 0) \<noteq> preds_file_t10 (setting_names ! 0) \<and>
   (\<exists>top5 top10.
      rfs (snd (evaluate demo_renv demo_test_ratings (source_features demo_emb)
          (preds_file_t5 (setting_names ! 0)) (preds_file_t10 (setting_names ! 0))
          512 ''cpu'' ''0.2'' 7 demo_rstate)) (preds_file_t5 (setting_names ! 0)) =
        Some (Table top5) \<and>
      rfs (snd (evaluate demo_renv demo_test_ratings (source_features demo_emb)
          (preds_file_t5 (setting_names ! 0)) (preds_file_t10 (setting_names ! 0))
          512 ''cpu'' ''0.2'' 7 demo_rstate)) (preds_file_t10 (setting_names ! 0)) =
        Some (Table top10) \<and>
      (\<forall>u. filter (\<lambda>r. user r = u) top5 = take 5 (filter (\<lambda>r. user r = u) top10)) \<and>
      top5 = groupby_user_head 5 top10)"
proof -
  let ?name = "setting_names ! 0"
  let ?run = "evaluate demo_renv demo_test_ratings (source_features demo_emb)
      (preds_file_t5 ?name) (preds_file_t10 ?name) 512 ''cpu'' ''0.2'' 7 demo_rstate"
  have slash: "CHR ''/'' \<notin> set ?name"
    using setting_names_nonempty by (intro setting_names_no_slash) simp
  have "?run = (Inr (), demo_rstate\<lparr>calls := calls demo_rstate @ [Test],
      rfs := (rfs demo_rstate)
        (preds_file_t5 ?name \<mapsto> Table (groupby_user_head 5
           [(10, 20, 2), (10, 30, 1), (20, 30, 2), (20, 10, 1), (20, 40, 1), (20, 20, 0)]),
         preds_file_t10 ?name \<mapsto> Table (groupby_user_head 10
           [(10, 20, 2), (10, 30, 1), (20, 30, 2), (20, 10, 1), (20, 40, 1), (20, 20, 0)]))\<rparr>)"
    by (rule evaluate_Inr_I[OF demo_test_value demo_remap_value])
      (simp_all add: dirname_paths[OF slash] demo_dirs demo_rstate_files paths_differ
        paths_differ[symmetric])
  then have ok: "fst ?run = Inr ()" by simp
  then have run: "?run = (Inr (), snd ?run)" by (simp add: prod_eq_iff)
  have ne: "preds_file_t5 ?name \<noteq> preds_file_t10 ?name" by (rule paths_differ)
  from top5_is_prefix_of_top10[OF run ne] ok ne show ?thesis by blast
qed

section \<open>Reuse of a saved model\<close>

text \<open>
  C6.  The claim: when a trained model file exists and the force flag is false, the driver
  loads the saved model instead of training, and a re-run in that state produces the
  predictions files without running the training loop.

  With the saved model and the top-5 file both present, the iteration ends at the
  \<^verbatim>\<open>continue\<close> of line 285: no model is loaded, nothing is evaluated, and the top-10
  file, absent before, is still absent.
\<close>

theorem skip_when_predictions_exist:
  "rfs demo_skip_state (model_name (setting_names ! 0)) = Some (ModelFile 7) \<and>
   rfs demo_skip_state (preds_file_t10 (setting_names ! 0)) = None \<and>
   fst (run_config False demo_renv [] demo_test_ratings demo_tensors_dict
          (source_features demo_emb) (0, [''dbbook_s=1_CompGCN_k=64_l=1'']) demo_skip_state) =
     Inr () \<and>
   calls (snd (run_config False demo_renv [] demo_test_ratings demo_tensors_dict
          (source_features demo_emb) (0, [''dbbook_s=1_CompGCN_k=64_l=1'']) demo_skip_state)) =
     [] \<and>
   rfs (snd (run_config False demo_renv [] demo_test_ratings demo_tensors_dict
          (source_features demo_emb) (0, [''dbbook_s=1_CompGCN_k=64_l=1'']) demo_skip_state))
      (preds_file_t10 (setting_names ! 0)) = None"
proof -
  have d: "dir_or_absent demo_skip_state (strip_slash preds_folder)"
    "dir_or_absent demo_skip_state (strip_slash model_folder)"
    by (simp_all add: dir_or_absent_def demo_skip_state_def demo_reuse_state_def demo_dirs
        paths_differ[symmetric])
  have m: "rfs demo_skip_state (model_name (setting_names ! 0)) = Some (ModelFile 7)"
    by (simp add: demo_skip_state_def demo_reuse_state_def paths_differ paths_differ[symmetric])
  have t5: "rfs demo_skip_state (preds_file_t5 (setting_names ! 0)) = Some (Table [])"
    by (simp add: demo_skip_state_def)
  have t10: "rfs demo_skip_state (preds_file_t10 (setting_names ! 0)) = None"
    by (simp add: demo_skip_state_def demo_reuse_state_def demo_rstate_files paths_differ
        paths_differ[symmetric])
  have c: "calls demo_skip_state = []"
    by (simp add: demo_skip_state_def demo_reuse_state_def demo_rstate_def)
  show ?thesis
    unfolding run_config_unfold[OF demo_features setting_names_nonempty d]
    by (simp add: Let_def rexists_def m t5 t10 c paths_differ)
qed

text \<open>
  C6, as the code has it.  With the force flag false and a saved model at the
  configuration's model path: if the top-5 predictions file exists the configuration is
  skipped, with nothing loaded, trained, evaluated or written; otherwise the saved model
  is loaded and evaluated, \<^verbatim>\<open>train\<close> is not called (the calls are \<^verbatim>\<open>torch.load\<close>, then
  \<^verbatim>\<open>test\<close>), and when the evaluation and the back-mapping return, both predictions
  files are written from them.
\<close>

theorem reuse_saved_model:
  assumes "map_exn (\<lambda>model. dict_getitem tensors_dict (PStr model)) config = Inr features"
    and "i < length setting_names"
    and "dir_or_absent st (strip_slash preds_folder)"
    and "rfs st (strip_slash model_folder) = Some RDir"
    and "rfs st (model_name (setting_names ! i)) = Some (ModelFile m)"
  shows "let name = setting_names ! i;
             st_d = st\<lparr>rfs := (rfs st)(strip_slash preds_folder \<mapsto> RDir)\<rparr>;
             outcome = run_config False env train_ratings test_ratings tensors_dict source_feats
                         (i, config) st
         in (rexists st (preds_file_t5 name) \<longrightarrow> outcome = (Inr (), st_d)) \<and>
            (\<not> rexists st (preds_file_t5 name) \<longrightarrow>
               outcome = evaluate env test_ratings source_feats (preds_file_t5 name)
                           (preds_file_t10 name) 512 (device_of env) ''0.2'' m
                           (st_d\<lparr>calls := calls st @ [Load (model_name name)]\<rparr>) \<and>
               calls (snd outcome) = calls st @ [Load (model_name name), Test]) \<and>
            (\<forall>ranked predictions.
               \<not> rexists st (preds_file_t5 name) \<and>
               rfs st (preds_file_t10 name) \<noteq> Some RDir \<and>
               test env m test_ratings 512 (device_of env) ''0.2'' = Inr ranked \<and>
               remap_predictions (list_mapping source_feats) ranked = Inr predictions \<longrightarrow>
               fst outcome = Inr () \<and>
               rfs (snd outcome) (preds_file_t5 name) =
                 Some (Table (groupby_user_head 5 predictions)) \<and>
               rfs (snd outcome) (preds_file_t10 name) =
                 Some (Table (groupby_user_head 10 predictions)))"
proof -
  let ?name = "setting_names ! i"
  let ?st_d = "st\<lparr>rfs := (rfs st)(strip_slash preds_folder \<mapsto> RDir)\<rparr>"
  let ?st_l = "?st_d\<lparr>calls := calls st @ [Load (model_name ?name)]\<rparr>"
  let ?outcome = "run_config False env train_ratings test_ratings tensors_dict source_feats
      (i, config) st"
  let ?ev = "evaluate env test_ratings source_feats (preds_file_t5 ?name) (preds_file_t10 ?name)
      512 (device_of env) ''0.2'' m ?st_l"
  have d2: "dir_or_absent st (strip_slash model_folder)"
    using assms(4) by (simp add: dir_or_absent_def)
  have idem: "(rfs st)(strip_slash preds_folder \<mapsto> RDir, strip_slash model_folder \<mapsto> RDir) =
      (rfs st)(strip_slash preds_folder \<mapsto> RDir)"
    using assms(4) by (auto simp: fun_eq_iff)
  have ex: "rexists st (model_name ?name)" using assms(5) by (simp add: rexists_def)
  have ld: "torch_load (model_name ?name) ?st_d = (Inr m, ?st_l)"
    using assms(5) by (simp add: torch_load_def paths_differ)
  have unf: "?outcome = (if rexists st (preds_file_t5 ?name) then (Inr (), ?st_d) else ?ev)"
    unfolding run_config_unfold[OF assms(1) assms(2) assms(3) d2]
    by (simp add: Let_def ex idem bindE_def ld)
  have slash: "CHR ''/'' \<notin> set ?name"
    using assms(2) by (intro setting_names_no_slash) simp
  have skip: "rexists st (preds_file_t5 ?name) \<longrightarrow> ?outcome = (Inr (), ?st_d)"
    by (simp add: unf)
  have load: "\<not> rexists st (preds_file_t5 ?name) \<longrightarrow>
      ?outcome = ?ev \<and> calls (snd ?outcome) = calls st @ [Load (model_name ?name), Test]"
    by (simp add: unf evaluate_calls)
  have files: "fst ?outcome = Inr () \<and>
      rfs (snd ?outcome) (preds_file_t5 ?name) = Some (Table (groupby_user_head 5 predictions)) \<and>
      rfs (snd ?outcome) (preds_file_t10 ?name) = Some (Table (groupby_user_head 10 predictions))"
    if a: "\<not> rexists st (preds_file_t5 ?name)"
      and b: "rfs st (preds_file_t10 ?name) \<noteq> Some RDir"
      and t: "test env m test_ratings 512 (device_of env) ''0.2'' = Inr ranked"
      and r: "remap_predictions (list_mapping source_feats) ranked = Inr predictions"
    for ranked predictions
  proof -
    have "?ev = (Inr (), ?st_l\<lparr>calls := calls ?st_l @ [Test],
        rfs := (rfs ?st_l)(preds_file_t5 ?name \<mapsto> Table (groupby_user_head 5 predictions),
                           preds_file_t10 ?name \<mapsto> Table (groupby_user_head 10 predictions))\<rparr>)"
      using a b
      by (intro evaluate_Inr_I[OF t r])
        (simp_all add: dirname_paths[OF slash] paths_differ paths_differ[symmetric] rexists_def)
    with a unf show ?thesis by (simp add: paths_differ)
  qed
  from skip load files show ?thesis unfolding Let_def by blast
qed

theorem reuse_saved_model_witness:
  "map_exn (\<lambda>model. dict_getitem demo_tensors_dict (PStr model)) [''dbbook_s=1_CompGCN_k=64_l=1''] =
     Inr [0] \<and>
   rfs demo_reuse_state (model_name (setting_names ! 0)) = Some (ModelFile 7) \<and>
   \<not> rexists demo_reuse_state (preds_file_t5 (setting_names ! 0)) \<and>
   fst (run_config False demo_renv [] demo_test_ratings demo_tensors_dict
          (source_features demo_emb) (0, [''dbbook_s=1_CompGCN_k=64_l=1'']) demo_reuse_state) =
     Inr () \<and>
   calls (snd (run_config False demo_renv [] demo_test_ratings demo_tensors_dict
          (source_features demo_emb) (0, [''dbbook_s=1_CompGCN_k=64_l=1'']) demo_reuse_state)) =
     [Load (model_name (setting_names ! 0)), Test] \<and>
   rfs (snd (run_config False demo_renv [] demo_test_ratings demo_tensors_dict
          (source_features demo_emb) (0, [''dbbook_s=1_CompGCN_k=64_l=1'']) demo_reuse_state))
      (preds_file_t5 (setting_names ! 0)) =
     Some (Table (groupby_user_head 5
       [(10, 20, 2), (10, 30, 1), (20, 30, 2), (20, 10, 1), (20, 40, 1), (20, 20, 0)]))"
proof -
  have d1: "dir_or_absent demo_reuse_state (strip_slash preds_folder)"
    by (simp add: dir_or_absent_def demo_reuse_state_def demo_dirs paths_differ[symmetric])
  have d2: "rfs demo_reuse_state (strip_slash model_folder) = Some RDir"
    by (simp add: demo_reuse_state_def demo_dirs paths_differ[symmetric])
  have m: "rfs demo_reuse_state (model_name (setting_names ! 0)) = Some (ModelFile 7)"
    by (simp add: demo_reuse_state_def)
  have t5: "\<not> rexists demo_reuse_state (preds_file_t5 (setting_names ! 0))"
    by (simp add: rexists_def demo_reuse_state_def demo_rstate_files paths_differ)
  have t10: "rfs demo_reuse_state (preds_file_t10 (setting_names ! 0)) \<noteq> Some RDir"
    by (simp add: demo_reuse_state_def demo_rstate_files paths_differ)
  have c: "calls demo_reuse_state = []"
    by (simp add: demo_reuse_state_def demo_rstate_def)
  have dev: "device_of demo_renv = ''cpu''"
    by (simp add: device_of_def demo_renv_def)
  have t: "test demo_renv 7 demo_test_ratings 512 (device_of demo_renv) ''0.2'' =
      Inr [(0, 1, 2), (0, 2, 1), (1, 2, 2), (1, 0, 1), (1, 3, 1), (1, 1, 0)]"
    by (simp add: dev demo_test_value)
  let ?outcome = "run_config False demo_renv [] demo_test_ratings demo_tensors_dict
      (source_features demo_emb) (0, [''dbbook_s=1_CompGCN_k=64_l=1'']) demo_reuse_state"
  note inst = reuse_saved_model[OF demo_features setting_names_nonempty d1 d2 m,
      of demo_renv "[]" demo_test_ratings "source_features demo_emb", unfolded Let_def]
  from inst t5 have "calls (snd ?outcome) =
      calls demo_reuse_state @ [Load (model_name (setting_names ! 0)), Test]"
    by blast
  then have calls: "calls (snd ?outcome) = [Load (model_name (setting_names ! 0)), Test]"
    by (simp add: c)
  from inst t5 t10 t demo_remap_value
  have "fst ?outcome = Inr () \<and>
      rfs (snd ?outcome) (preds_file_t5 (setting_names ! 0)) =
        Some (Table (groupby_user_head 5
          [(10, 20, 2), (10, 30, 1), (20, 30, 2), (20, 10, 1), (20, 40, 1), (20, 20, 0)]))"
    by blast
  with calls demo_features m t5 show ?thesis by blast
qed

section \<open>An exception in one configuration ends the driver\<close>

lemma for_each_raise:
  assumes "for_each body pre st = (Inr (), st1)" and "body x st1 = (Inl e, st2)"
  shows "for_each body (pre @ x # post) st = (Inl e, st2)"
  using assms
proof (induction pre arbitrary: st)
  case Nil
  then show ?case by (simp add: ret_def bindE_def)
next
  case (Cons y pre)
  from Cons.prems(1) obtain s where y: "body y st = (Inr (), s)"
    and rest: "for_each body pre s = (Inr (), st1)"
    by (auto simp: bindE_Inr_iff)
  from Cons.IH[OF rest Cons.prems(2)] y show ?case by (simp add: bindE_def)
qed

lemma main_unfold:
  "main env train_raw test_raw tensors_dict emb =
     for_each (run_config True env
         (remap_ratings (source_mapping (source_features emb)) train_raw)
         (remap_ratings (source_mapping (source_features emb)) test_raw)
         tensors_dict (source_features emb))
       (enumerate 0 feature_list)"
  by (simp add: main_def driver_def Let_def)

text \<open>
  C7.  The loop of the recommender driver has no handler.  When the training of a
  configuration raises, or its training returns and its evaluation raises, and the
  configurations before it completed, the loop over all configurations ends with that
  exception in the state the configuration raised in: the calls end with that
  configuration's \<^verbatim>\<open>train\<close> (and \<^verbatim>\<open>test\<close>), and no predictions file of any
  configuration is written after the state the configuration started in.
\<close>

theorem exception_halts_driver:
  assumes "enumerate 0 feature_list = pre @ (i, config) # post"
    and "for_each (run_config True env train_ratings test_ratings tensors_dict source_feats)
           pre st = (Inr (), st1)"
    and "map_exn (\<lambda>model. dict_getitem tensors_dict (PStr model)) config = Inr features"
    and "dir_or_absent st1 (strip_slash preds_folder)"
    and "dir_or_absent st1 (strip_slash model_folder)"
    and "train_model env train_ratings 512 30 (device_of env) ''RecSysNetworkBasic'' features
           ''0.2'' = Inl e \<or>
         (\<exists>m. train_model env train_ratings 512 30 (device_of env) ''RecSysNetworkBasic''
                features ''0.2'' = Inr m \<and>
              rfs st1 (model_name (setting_names ! i)) \<noteq> Some RDir \<and>
              test env m test_ratings 512 (device_of env) ''0.2'' = Inl e)"
  shows "\<exists>st2.
           for_each (run_config True env train_ratings test_ratings tensors_dict source_feats)
             (enumerate 0 feature_list) st = (Inl e, st2) \<and>
           run_config True env train_ratings test_ratings tensors_dict source_feats (i, config) st1 =
             (Inl e, st2) \<and>
           (calls st2 = calls st1 @ [Train] \<or> calls st2 = calls st1 @ [Train, Test]) \<and>
           (\<forall>name. rfs st2 (preds_file_t5 name) = rfs st1 (preds_file_t5 name) \<and>
                   rfs st2 (preds_file_t10 name) = rfs st1 (preds_file_t10 name))"
proof -
  let ?body = "run_config True env train_ratings test_ratings tensors_dict source_feats"
  let ?name = "setting_names ! i"
  let ?st_d = "st1\<lparr>rfs := (rfs st1)(strip_slash preds_folder \<mapsto> RDir,
                                       strip_slash model_folder \<mapsto> RDir)\<rparr>"
  have "(i, config) \<in> set (enumerate 0 feature_list)" unfolding assms(1) by simp
  then have "i < length feature_list" by (simp add: in_set_enumerate_eq)
  then have idx: "i < length setting_names" by (simp add: length_setting_names)
  then have slash: "CHR ''/'' \<notin> set ?name" by (intro setting_names_no_slash) simp
  note unf = run_config_unfold[OF assms(3) idx assms(4) assms(5), of True env train_ratings
      test_ratings source_feats, unfolded Let_def]
  from assms(6) obtain st2 where body: "?body (i, config) st1 = (Inl e, st2)"
    and c: "calls st2 = calls st1 @ [Train] \<or> calls st2 = calls st1 @ [Train, Test]"
    and f: "\<forall>name. rfs st2 (preds_file_t5 name) = rfs st1 (preds_file_t5 name) \<and>
                   rfs st2 (preds_file_t10 name) = rfs st1 (preds_file_t10 name)"
  proof
    assume tr: "train_model env train_ratings 512 30 (device_of env) ''RecSysNetworkBasic''
        features ''0.2'' = Inl e"
    show thesis
    proof (rule that)
      show "?body (i, config) st1 = (Inl e, ?st_d\<lparr>calls := calls st1 @ [Train]\<rparr>)"
        unfolding unf by (simp add: bindE_def call_train_def tr)
    qed (simp_all add: paths_differ)
  next
    assume "\<exists>m. train_model env train_ratings 512 30 (device_of env) ''RecSysNetworkBasic''
          features ''0.2'' = Inr m \<and>
        rfs st1 (model_name ?name) \<noteq> Some RDir \<and>
        test env m test_ratings 512 (device_of env) ''0.2'' = Inl e"
    then obtain m where tr: "train_model env train_ratings 512 30 (device_of env)
          ''RecSysNetworkBasic'' features ''0.2'' = Inr m"
      and nd: "rfs st1 (model_name ?name) \<noteq> Some RDir"
      and te: "test env m test_ratings 512 (device_of env) ''0.2'' = Inl e"
      by blast
    let ?st_s = "?st_d\<lparr>calls := calls st1 @ [Train],
        rfs := (rfs ?st_d)(model_name ?name \<mapsto> ModelFile m)\<rparr>"
    have sv: "bindE (call_train env train_ratings 512 30 (device_of env) ''RecSysNetworkBasic''
          features ''0.2'')
        (\<lambda>trained_model. bindE (rwrite (model_name ?name) (ModelFile trained_model))
           (\<lambda>_. ret trained_model)) ?st_d = (Inr m, ?st_s)"
      using nd
      by (simp add: bindE_def call_train_def tr rwrite_def ret_def dirname_paths[OF slash]
          paths_differ)
    show thesis
    proof (rule that)
      show "?body (i, config) st1 = (Inl e, ?st_s\<lparr>calls := calls ?st_s @ [Test]\<rparr>)"
        unfolding unf using sv by (simp add: bindE_def evaluate_test_raises[OF te])
    qed (simp_all add: paths_differ)
  qed
  have "for_each ?body (pre @ (i, config) # post) st = (Inl e, st2)"
    by (rule for_each_raise[OF assms(2) body])
  with body c f show ?thesis unfolding assms(1) by blast
qed

lemma demo_position:
  "enumerate 0 feature_list =
     [] @ (0, [''dbbook_s=1_CompGCN_k=64_l=1'']) # tl (enumerate 0 feature_list)"
  by (simp add: feature_list_def)

theorem exception_halts_driver_witness:
  "train_model demo_failing_renv [] 512 30 (device_of demo_failing_renv) ''RecSysNetworkBasic''
     [0] ''0.2'' = Inl (Exn RuntimeError ''CUDA out of memory'') \<and>
   (\<exists>st2.
      for_each (run_config True demo_failing_renv [] demo_test_ratings demo_tensors_dict
                  (source_features demo_emb)) (enumerate 0 feature_list) demo_rstate =
        (Inl (Exn RuntimeError ''CUDA out of memory''), st2) \<and>
      run_config True demo_failing_renv [] demo_test_ratings demo_tensors_dict
          (source_features demo_emb) (0, [''dbbook_s=1_CompGCN_k=64_l=1'']) demo_rstate =
        (Inl (Exn RuntimeError ''CUDA out of memory''), st2) \<and>
      (calls st2 = calls demo_rstate @ [Train] \<or> calls st2 = calls demo_rstate @ [Train, Test]) \<and>
      (\<forall>name. rfs st2 (preds_file_t5 name) = rfs demo_rstate (preds_file_t5 name) \<and>
              rfs st2 (preds_file_t10 name) = rfs demo_rstate (preds_file_t10 name)))"
proof -
  have pre: "for_each (run_config True demo_failing_renv [] demo_test_ratings demo_tensors_dict
      (source_features demo_emb)) [] demo_rstate = (Inr (), demo_rstate)"
    by (simp add: ret_def)
  have d: "dir_or_absent demo_rstate (strip_slash preds_folder)"
    "dir_or_absent demo_rstate (strip_slash model_folder)"
    by (simp_all add: dir_or_absent_def demo_dirs)
  have tr: "train_model demo_failing_renv [] 512 30 (device_of demo_failing_renv)
      ''RecSysNetworkBasic'' [0] ''0.2'' = Inl (Exn RuntimeError ''CUDA out of memory'')"
    by (simp add: demo_failing_renv_def)
  then have fails: "train_model demo_failing_renv [] 512 30 (device_of demo_failing_renv)
      ''RecSysNetworkBasic'' [0] ''0.2'' = Inl (Exn RuntimeError ''CUDA out of memory'') \<or>
    (\<exists>m. train_model demo_failing_renv [] 512 30 (device_of demo_failing_renv)
          ''RecSysNetworkBasic'' [0] ''0.2'' = Inr m \<and>
        rfs demo_rstate (model_name (setting_names ! 0)) \<noteq> Some RDir \<and>
        test demo_failing_renv m demo_test_ratings 512 (device_of demo_failing_renv) ''0.2'' =
          Inl (Exn RuntimeError ''CUDA out of memory''))"
    by blast
  from exception_halts_driver[OF demo_position pre demo_features d fails] tr
  show ?thesis by blast
qed

section \<open>The canonical entity index\<close>

lemma dict_setitem_keys: "fst ` set (dict_setitem d k v) = insert k (fst ` set d)"
  by (induction d k v rule: dict_setitem.induct) auto


lemma foldl_setitem_keys:
  "fst ` set (foldl (\<lambda>d (k, v). dict_setitem d k v) d pairs) = fst ` set d \<union> fst ` set pairs"
proof (induction pairs arbitrary: d)
  case Nil
  show ?case by simp
next
  case (Cons p pairs)
  obtain k v where p: "p = (k, v)" by (cases p)
  have "fst ` set (foldl (\<lambda>d (k, v). dict_setitem d k v) (dict_setitem d k v) pairs) =
      fst ` set (dict_setitem d k v) \<union> fst ` set pairs"
    by (rule Cons.IH)
  then show ?case by (simp add: p dict_setitem_keys)
qed

lemma dict_of_keys: "fst ` set (dict_of pairs) = fst ` set pairs"
  by (simp add: dict_of_def foldl_setitem_keys)









section \<open>Identifiers that are not in the index\<close>

lemma source_mapping_keys:
  "fst ` set (source_mapping (source_features emb)) = fst ` set emb"
proof -
  have "fst ` set (source_features emb) = fst ` set emb"
    by (simp add: source_features_def dict_of_keys)
  moreover have "fst ` set (zip (map fst (source_features emb))
      (map int [0 ..< length (source_features emb)])) = set (map fst (source_features emb))"
    by (metis length_map length_upt map_fst_zip minus_nat.diff_0 set_map)
  ultimately show ?thesis
    by (simp add: source_mapping_def source_mapping_indeces_def dict_of_keys)
qed

lemma map_of_source_mapping_None:
  "map_of (source_mapping (source_features emb)) k = None \<longleftrightarrow> k \<notin> fst ` set emb"
  by (simp add: map_of_eq_None_iff source_mapping_keys)

lemma remap_ratings_eq:
  "remap_ratings mapping ratings =
     map (\<lambda>r. (map_of mapping (user r), map_of mapping (item r), score r)) ratings"
  by (rule nth_equalityI)
    (simp_all add: remap_ratings_def Let_def series_map_def set_user_def set_item_def user_def
      item_def score_def)

text \<open>
  C9.  Remapping a rating table through the canonical index returns a table with the
  same number of rows, in the same order, the labels untouched; it is a plain table, the
  step has no raising branch.  In the row of a user (or item) identifier that is not a key
  of the embedding dictionary, that column holds the missing value; an identifier that
  is a key gets its index.
\<close>

theorem missing_ids_become_nan:
  "length (remap_ratings (source_mapping (source_features emb)) ratings) = length ratings \<and>
   (\<forall>n<length ratings.
      score (remap_ratings (source_mapping (source_features emb)) ratings ! n) =
        score (ratings ! n) \<and>
      user (remap_ratings (source_mapping (source_features emb)) ratings ! n) =
        map_of (source_mapping (source_features emb)) (user (ratings ! n)) \<and>
      item (remap_ratings (source_mapping (source_features emb)) ratings ! n) =
        map_of (source_mapping (source_features emb)) (item (ratings ! n)) \<and>
      (user (remap_ratings (source_mapping (source_features emb)) ratings ! n) = None
         \<longleftrightarrow> user (ratings ! n) \<notin> fst ` set emb) \<and>
      (item (remap_ratings (source_mapping (source_features emb)) ratings ! n) = None
         \<longleftrightarrow> item (ratings ! n) \<notin> fst ` set emb))"
  by (simp add: remap_ratings_eq map_of_source_mapping_None user_def item_def score_def)

theorem missing_ids_become_nan_witness:
  "remap_ratings (source_mapping (source_features demo_emb)) [(20, 10, 1), (99, 30, 0::int)] =
     [(Some 1, Some 0, 1), (None, Some 2, 0)] \<and>
   99 \<notin> fst ` set demo_emb \<and>
   length (remap_ratings (source_mapping (source_features demo_emb))
     [(20, 10, 1), (99, 30, 0::int)]) = 2 \<and>
   user (remap_ratings (source_mapping (source_features demo_emb))
     [(20, 10, 1), (99, 30, 0::int)] ! 1) = None \<and>
   score (remap_ratings (source_mapping (source_features demo_emb))
     [(20, 10, 1), (99, 30, 0::int)] ! 1) = 0"
proof -
  have v: "remap_ratings (source_mapping (source_features demo_emb))
      [(20, 10, 1), (99, 30, 0::int)] = [(Some 1, Some 0, 1), (None, Some 2, 0)]"
    by (simp add: remap_ratings_eq demo_source_features source_mapping_def
        source_mapping_indeces_def dict_of_def user_def item_def score_def upt_rec)
  have k: "99 \<notin> fst ` set demo_emb" by (simp add: demo_emb_def)
  from missing_ids_become_nan[of demo_emb "[(20, 10, 1), (99, 30, 0::int)]"] v k
  show ?thesis by (simp add: user_def score_def)
qed

section \<open>The files of a trained configuration\<close>

lemma print_line_result:
  "print_line s st = (r, st') \<Longrightarrow> r = Inr () \<and> fs st' = fs st"
  by (auto simp: print_line_def)

lemma log_write_result:
  "log_write s st = (r, st') \<Longrightarrow> r = Inr () \<and> fs st' = fs st"
  by (auto simp: log_write_def)

lemma lift_result: "lift r st = (Inr x, st') \<Longrightarrow> r = Inr x \<and> st' = st"
  by (simp add: lift_def)

lemma write_file_Inr_D:
  "write_file p c st = (Inr u, st') \<Longrightarrow> fs st' = (fs st)(p \<mapsto> c)"
  by (auto simp: write_file_def split: if_splits)

lemma mkdir_Inr_D: "mkdir p st = (Inr u, st') \<Longrightarrow> fs st' = (fs st)(p \<mapsto> Dir)"
  by (auto simp: mkdir_def split: if_splits)

lemma save_to_directory_Inr_D:
  assumes "save_to_directory env result folder st = (Inr u, st')"
  shows "fs st' = (fs st)(folder @ ''/trained_model.pkl'' \<mapsto> LibraryFile,
                         folder @ ''/results.json'' \<mapsto> LibraryFile,
                         folder @ ''/metadata.json'' \<mapsto> LibraryFile,
                         folder @ ''/training_triples'' \<mapsto> Dir)"
proof -
  from assms have none: "save_to_directory_fails env result folder = None"
    by (auto simp: save_to_directory_def raiseE_def split: option.splits)
  from assms obtain s1 s2 s3 where
    w1: "write_file (folder @ ''/trained_model.pkl'') LibraryFile st = (Inr (), s1)"
    and w2: "write_file (folder @ ''/results.json'') LibraryFile s1 = (Inr (), s2)"
    and w3: "write_file (folder @ ''/metadata.json'') LibraryFile s2 = (Inr (), s3)"
    and w4: "st' = s3\<lparr>fs := (fs s3)(folder @ ''/training_triples'' \<mapsto> Dir)\<rparr>"
    by (auto simp: save_to_directory_def none bindE_Inr_iff)
  from write_file_Inr_D[OF w1] write_file_Inr_D[OF w2] write_file_Inr_D[OF w3] w4
  show ?thesis by simp
qed

text \<open>
  C5.  The claim: the persisted entity and relation maps are two-column tables whose
  first column is the integer index and whose second column is the textual name.

  The columns are the other way round.  The table is built from the items of
  \<^verbatim>\<open>entity_to_id\<close>, pairs (name, index): on a library that trains, the first column of
  the file written holds the names.
\<close>

theorem id_map_first_column_is_name:
  "fst (learn demo_kenv ''demo'' ''results/demo'' ''train.tsv'' ''test.tsv'' ''checkpoint''
          ''CompGCN'' 64 1 (initial demo_files)) = Inr () \<and>
   fs (snd (learn demo_kenv ''demo'' ''results/demo'' ''train.tsv'' ''test.tsv'' ''checkpoint''
          ''CompGCN'' 64 1 (initial demo_files))) ''results/demo/entities_to_id.tsv'' =
     Some (Frame [[CStr ''alice'', CInt 0], [CStr ''book1'', CInt 1], [CStr ''book2'', CInt 2]])"
  by (simp add: learn_def bindE_def lift_def print_line_def log_write_def demo_kenv_def
      demo_factory_def demo_files_def initial_def path_exists_def mkdir_def write_file_def
      dirname_def save_to_directory_def items_frame_def matrix_frame_def)

text \<open>
  C5, as the code has it.  When the \<^verbatim>\<open>try\<close> block of a configuration ends normally,
  the files \<^verbatim>\<open>entities_to_id.tsv\<close> and \<^verbatim>\<open>relations_to_id.tsv\<close> of its folder hold one
  row per entry of the training vocabulary, in the vocabulary's order, with the textual
  name in the first column and the integer index in the second.
\<close>

theorem id_maps_exported:
  assumes "learn env printline folder train_path test_path checkpoint_name_file emb_model
             emb_dim n_layer st = (Inr (), st')"
  shows "\<exists>emb_training. from_path env train_path None = Inr emb_training \<and>
           fs st' (folder @ ''/entities_to_id.tsv'') =
             Some (Frame (map (\<lambda>(name, idx). [CStr name, CInt idx]) (entity_to_id emb_training))) \<and>
           fs st' (folder @ ''/relations_to_id.tsv'') =
             Some (Frame (map (\<lambda>(name, idx). [CStr name, CInt idx])
                    (relation_to_id emb_training)))"
proof -
  from assms obtain emb_training result s6 s7 s8 s9 s10 s12 s13 tensor where
    fp: "from_path env train_path None = Inr emb_training"
    and w7: "write_file (folder @ ''/pipeline_result.dat'') (Saved result) s6 = (Inr (), s7)"
    and w8: "write_file (folder @ ''/entities_to_id.tsv'')
        (Frame (items_frame (entity_to_id emb_training))) s7 = (Inr (), s8)"
    and w9: "write_file (folder @ ''/relations_to_id.tsv'')
        (Frame (items_frame (relation_to_id emb_training))) s8 = (Inr (), s9)"
    and sd: "save_to_directory env result folder s9 = (Inr (), s10)"
    and w12: "write_file (folder @ ''/embeddings.tsv'') (Frame (matrix_frame tensor)) s10 =
        (Inr (), s12)"
    and p13: "print_line (''Completed '' @ printline) s12 = (Inr (), s13)"
    and l14: "log_write (''Completed'' @ [CHR 0x0A]) s13 = (Inr (), st')"
    unfolding learn_def bindE_Inr_iff by (auto dest!: lift_result)
  have "fs st' = fs s12"
    using print_line_result[OF p13] log_write_result[OF l14] by simp
  also have "\<dots> = (fs s10)(folder @ ''/embeddings.tsv'' \<mapsto> Frame (matrix_frame tensor))"
    by (rule write_file_Inr_D[OF w12])
  finally have final: "fs st' =
      (fs s10)(folder @ ''/embeddings.tsv'' \<mapsto> Frame (matrix_frame tensor))" .
  have s10: "fs s10 = (fs s9)(folder @ ''/trained_model.pkl'' \<mapsto> LibraryFile,
      folder @ ''/results.json'' \<mapsto> LibraryFile,
      folder @ ''/metadata.json'' \<mapsto> LibraryFile,
      folder @ ''/training_triples'' \<mapsto> Dir)"
    by (rule save_to_directory_Inr_D[OF sd])
  have s9: "fs s9 = (fs s8)(folder @ ''/relations_to_id.tsv'' \<mapsto>
      Frame (items_frame (relation_to_id emb_training)))"
    by (rule write_file_Inr_D[OF w9])
  have s8: "fs s8 = (fs s7)(folder @ ''/entities_to_id.tsv'' \<mapsto>
      Frame (items_frame (entity_to_id emb_training)))"
    by (rule write_file_Inr_D[OF w8])
  have "fs st' (folder @ ''/entities_to_id.tsv'') =
      Some (Frame (items_frame (entity_to_id emb_training)))"
    by (simp add: final s10 s9 s8)
  moreover have "fs st' (folder @ ''/relations_to_id.tsv'') =
      Some (Frame (items_frame (relation_to_id emb_training)))"
    by (simp add: final s10 s9)
  ultimately show ?thesis using fp by (auto simp: items_frame_def)
qed

theorem id_maps_exported_witness:
  "fst (learn demo_kenv ''demo'' ''results/demo'' ''train.tsv'' ''test.tsv'' ''checkpoint''
          ''CompGCN'' 64 1 (initial demo_files)) = Inr () \<and>
   (\<exists>emb_training. from_path demo_kenv ''train.tsv'' None = Inr emb_training \<and>
      fs (snd (learn demo_kenv ''demo'' ''results/demo'' ''train.tsv'' ''test.tsv''
          ''checkpoint'' ''CompGCN'' 64 1 (initial demo_files)))
        (''results/demo'' @ ''/entities_to_id.tsv'') =
        Some (Frame (map (\<lambda>(name, idx). [CStr name, CInt idx]) (entity_to_id emb_training))) \<and>
      fs (snd (learn demo_kenv ''demo'' ''results/demo'' ''train.tsv'' ''test.tsv''
          ''checkpoint'' ''CompGCN'' 64 1 (initial demo_files)))
        (''results/demo'' @ ''/relations_to_id.tsv'') =
        Some (Frame (map (\<lambda>(name, idx). [CStr name, CInt idx])
               (relation_to_id emb_training))))"
proof -
  let ?run = "learn demo_kenv ''demo'' ''results/demo'' ''train.tsv'' ''test.tsv''
      ''checkpoint'' ''CompGCN'' 64 1 (initial demo_files)"
  have ok: "fst ?run = Inr ()"
    by (simp add: learn_def bindE_def lift_def print_line_def log_write_def demo_kenv_def
        demo_factory_def demo_files_def initial_def path_exists_def mkdir_def write_file_def
        dirname_def save_to_directory_def items_frame_def matrix_frame_def)
  then have run: "?run = (Inr (), snd ?run)" by (simp add: prod_eq_iff)
  from id_maps_exported[OF run] ok show ?thesis by blast
qed

section \<open>Further properties\<close>

text \<open>
  Where the dictionary has the setting as a key, so that the \<^verbatim>\<open>try\<close> block is reached:
  an exception of class \<^verbatim>\<open>Exception\<close> raised in the block is caught; its text and the
  configuration's name are printed and written to the log, and the iteration ends
  normally, in the state the block had reached.
\<close>

theorem try_block_failure_is_logged:
  assumes "dict_getitem kgs setting = Inr kg"
    and "learn env (config_name dataset setting emb_model emb_dim n_layer)
           (''results/'' @ config_name dataset setting emb_model emb_dim n_layer)
           (dataset @ ''/setting_'' @ kg @ ''/pykeen_train.tsv'')
           (dataset @ ''/setting_'' @ kg @ ''/pykeen_test.tsv'')
           (dataset @ ''_checkpoints_setting_'' @ py_str setting @ ''_'' @ emb_model
              @ ''_k='' @ str_int emb_dim @ ''_l='' @ str_int n_layer)
           emb_model emb_dim n_layer
           (st\<lparr>stdout := stdout st @
                  [''Starting '' @ config_name dataset setting emb_model emb_dim n_layer],
               log_file := log_file st @
                  ''Starting'' @ config_name dataset setting emb_model emb_dim n_layer\<rparr>) =
           (Inl e, st2)"
    and "is_Exception e"
  shows "sweep_body kgs env (emb_model, emb_dim, dataset, setting, n_layer) st =
     (Inr (),
      st2\<lparr>stdout := stdout st2 @
               [''An error occoured in '' @ config_name dataset setting emb_model emb_dim n_layer,
                exn_str e],
          log_file := log_file st2 @
               ''An error occoured in '' @ config_name dataset setting emb_model emb_dim n_layer
               @ [CHR 0x0A] @ exn_str e @ [CHR 0x0A]\<rparr>)"
  using assms
  by (simp add: sweep_body_def Let_def bindE_def print_line_def log_write_def lift_def
      try_except_Exception_def on_error_def)

theorem try_block_failure_is_logged_witness:
  "dict_getitem setting_kgs (PStr ''8'') = Inr ''8_cf_dbpedia_llm_ui'' \<and>
   is_Exception (Exn OSError ''No such file'') \<and>
   sweep_body setting_kgs demo_missing_kenv (''CompGCN'', 64, ''ml1m'', PStr ''8'', 1)
       (initial demo_files) =
     (Inr (),
      \<lparr>log_file = ''Startingml1m_setting_8_CompGCN_k=64_l=1''
           @ ''An error occoured in ml1m_setting_8_CompGCN_k=64_l=1'' @ [CHR 0x0A]
           @ ''No such file'' @ [CHR 0x0A],
       stdout = [''Starting ml1m_setting_8_CompGCN_k=64_l=1'',
                 ''Starting learning:results/ml1m_setting_8_CompGCN_k=64_l=1'',
                 ''Starting learning: ml1m_setting_8_CompGCN_k=64_l=1'',
                 ''An error occoured in ml1m_setting_8_CompGCN_k=64_l=1'',
                 ''No such file''],
       fs = demo_files\<rparr>)"
proof -
  let ?name = "config_name ''ml1m'' (PStr ''8'') ''CompGCN'' 64 1"
  let ?st1 = "(initial demo_files :: (nat, int) kstate)\<lparr>stdout := stdout (initial demo_files) @
        [''Starting '' @ ?name],
      log_file := log_file (initial demo_files) @ ''Starting'' @ ?name\<rparr>"
  have k: "dict_getitem setting_kgs (PStr ''8'') = Inr ''8_cf_dbpedia_llm_ui''"
    by (simp add: dict_getitem_def setting_kgs_def)
  have l: "learn demo_missing_kenv ?name (''results/'' @ ?name)
      (''ml1m'' @ ''/setting_'' @ ''8_cf_dbpedia_llm_ui'' @ ''/pykeen_train.tsv'')
      (''ml1m'' @ ''/setting_'' @ ''8_cf_dbpedia_llm_ui'' @ ''/pykeen_test.tsv'')
      (''ml1m'' @ ''_checkpoints_setting_'' @ py_str (PStr ''8'') @ ''_'' @ ''CompGCN''
         @ ''_k='' @ str_int 64 @ ''_l='' @ str_int 1)
      ''CompGCN'' 64 1 ?st1 =
      (Inl (Exn OSError ''No such file''),
       ?st1\<lparr>stdout := stdout ?st1 @
          [''Starting learning:'' @ ''results/'' @ ?name, ''Starting learning: '' @ ?name]\<rparr>)"
    by (simp add: learn_def bindE_def print_line_def lift_def demo_missing_kenv_def)
  have e: "is_Exception (Exn OSError ''No such file'')" by simp
  from try_block_failure_is_logged[OF k l e] k
  show ?thesis by (simp add: initial_def config_name_def str_int_digits)
qed

text \<open>
  When the \<^verbatim>\<open>try\<close> block of a configuration ends normally, \<^verbatim>\<open>embeddings.tsv\<close> holds
  the matrix of entity representations of the trained model, one row of the file per
  row of the matrix, in order, with no key column.
\<close>

theorem embeddings_exported:
  assumes "learn env printline folder train_path test_path checkpoint_name_file emb_model
             emb_dim n_layer st = (Inr (), st')"
  shows "\<exists>emb_training emb_testing result tensor.
           from_path env train_path None = Inr emb_training \<and>
           from_path env test_path
             (Some (entity_to_id emb_training, relation_to_id emb_training)) = Inr emb_testing \<and>
           pipeline env emb_training emb_testing emb_model emb_dim n_layer emb_epochs
             checkpoint_name_file = Inr result \<and>
           entity_representations env result = Inr tensor \<and>
           fs st' (folder @ ''/embeddings.tsv'') = Some (Frame (map (map CFloat) tensor))"
proof -
  from assms obtain emb_training emb_testing result tensor s10 s12 s13 where
    fp: "from_path env train_path None = Inr emb_training"
    and ft: "from_path env test_path
        (Some (entity_to_id emb_training, relation_to_id emb_training)) = Inr emb_testing"
    and pl: "pipeline env emb_training emb_testing emb_model emb_dim n_layer emb_epochs
        checkpoint_name_file = Inr result"
    and er: "entity_representations env result = Inr tensor"
    and w12: "write_file (folder @ ''/embeddings.tsv'') (Frame (matrix_frame tensor)) s10 =
        (Inr (), s12)"
    and p13: "print_line (''Completed '' @ printline) s12 = (Inr (), s13)"
    and l14: "log_write (''Completed'' @ [CHR 0x0A]) s13 = (Inr (), st')"
    unfolding learn_def bindE_Inr_iff by (auto dest!: lift_result)
  have "fs st' = fs s12"
    using print_line_result[OF p13] log_write_result[OF l14] by simp
  also have "\<dots> = (fs s10)(folder @ ''/embeddings.tsv'' \<mapsto> Frame (matrix_frame tensor))"
    by (rule write_file_Inr_D[OF w12])
  finally have "fs st' (folder @ ''/embeddings.tsv'') = Some (Frame (map (map CFloat) tensor))"
    by (simp add: matrix_frame_def)
  with fp ft pl er show ?thesis by blast
qed

theorem embeddings_exported_witness:
  "fst (learn demo_kenv ''demo'' ''results/demo'' ''train.tsv'' ''test.tsv'' ''checkpoint''
          ''CompGCN'' 64 1 (initial demo_files)) = Inr () \<and>
   fs (snd (learn demo_kenv ''demo'' ''results/demo'' ''train.tsv'' ''test.tsv'' ''checkpoint''
          ''CompGCN'' 64 1 (initial demo_files))) (''results/demo'' @ ''/embeddings.tsv'') =
     Some (Frame [[CFloat 1, CFloat 2], [CFloat 3, CFloat 4], [CFloat 5, CFloat 6]])"
proof -
  let ?run = "learn demo_kenv ''demo'' ''results/demo'' ''train.tsv'' ''test.tsv''
      ''checkpoint'' ''CompGCN'' 64 1 (initial demo_files)"
  have ok: "fst ?run = Inr ()"
    by (simp add: learn_def bindE_def lift_def print_line_def log_write_def demo_kenv_def
        demo_factory_def demo_files_def initial_def path_exists_def mkdir_def write_file_def
        dirname_def save_to_directory_def items_frame_def matrix_frame_def)
  then have run: "?run = (Inr (), snd ?run)" by (simp add: prod_eq_iff)
  from embeddings_exported[OF run] obtain result tensor where
    "entity_representations demo_kenv result = Inr tensor"
    and f: "fs (snd ?run) (''results/demo'' @ ''/embeddings.tsv'') =
      Some (Frame (map (map CFloat) tensor))"
    by blast
  then have "tensor = [[1, 2], [3, 4], [5, 6]]" by (simp add: demo_kenv_def)
  with f ok show ?thesis by simp
qed

text \<open>
  The script sets the force flag to \<^verbatim>\<open>True\<close>, so an iteration that reaches line 280
  calls \<^verbatim>\<open>train\<close>, also when a saved model is present: the first call it makes is
  \<^verbatim>\<open>train\<close>, never \<^verbatim>\<open>torch.load\<close>.
\<close>

theorem forced_run_always_trains:
  assumes "map_exn (\<lambda>model. dict_getitem tensors_dict (PStr model)) config = Inr features"
    and "i < length setting_names"
    and "dir_or_absent st (strip_slash preds_folder)"
    and "dir_or_absent st (strip_slash model_folder)"
  shows "\<exists>later. calls (snd (run_config True env train_ratings test_ratings tensors_dict
                                 source_feats (i, config) st)) = calls st @ Train # later \<and>
                  set later \<subseteq> {Test}"
proof -
  note unf = run_config_unfold[OF assms, of True env train_ratings test_ratings source_feats,
      unfolded Let_def]
  let ?st_d = "st\<lparr>rfs := (rfs st)(strip_slash preds_folder \<mapsto> RDir,
                                     strip_slash model_folder \<mapsto> RDir)\<rparr>"
  let ?train = "train_model env train_ratings 512 30 (device_of env) ''RecSysNetworkBasic''
      features ''0.2''"
  show ?thesis
  proof (cases ?train)
    case (Inl e)
    then show ?thesis unfolding unf by (simp add: bindE_def call_train_def)
  next
    case (Inr m)
    let ?st_t = "?st_d\<lparr>calls := calls st @ [Train]\<rparr>"
    obtain r s where w: "rwrite (model_name (setting_names ! i)) (ModelFile m) ?st_t = (r, s)"
      by (cases "rwrite (model_name (setting_names ! i)) (ModelFile m) ?st_t") auto
    then have cs: "calls s = calls st @ [Train]"
      by (auto simp: rwrite_def split: if_splits)
    show ?thesis
    proof (cases r)
      case (Inl e)
      with w cs Inr show ?thesis
        unfolding unf by (simp add: bindE_def call_train_def)
    next
      case u: (Inr u)
      have "calls (snd (evaluate env test_ratings source_feats
          (preds_file_t5 (setting_names ! i)) (preds_file_t10 (setting_names ! i)) 512
          (device_of env) ''0.2'' m s)) = calls s @ [Test]"
        by (rule evaluate_calls)
      with w cs Inr u show ?thesis
        unfolding unf by (simp add: bindE_def call_train_def ret_def)
    qed
  qed
qed

theorem forced_run_always_trains_witness:
  "rfs demo_reuse_state (model_name (setting_names ! 0)) = Some (ModelFile 7) \<and>
   (\<exists>later. calls (snd (run_config True demo_renv [] demo_test_ratings demo_tensors_dict
                          (source_features demo_emb) (0, [''dbbook_s=1_CompGCN_k=64_l=1''])
                          demo_reuse_state)) = calls demo_reuse_state @ Train # later \<and>
             set later \<subseteq> {Test})"
proof -
  have d: "dir_or_absent demo_reuse_state (strip_slash preds_folder)"
    "dir_or_absent demo_reuse_state (strip_slash model_folder)"
    by (simp_all add: dir_or_absent_def demo_reuse_state_def demo_dirs paths_differ[symmetric])
  have m: "rfs demo_reuse_state (model_name (setting_names ! 0)) = Some (ModelFile 7)"
    by (simp add: demo_reuse_state_def)
  from forced_run_always_trains[OF demo_features setting_names_nonempty d] m
  show ?thesis by blast
qed

end
